theory Spec2Isabelle
  imports Complex_Main "HOL-Library.Word" "HOL-Library.AList"
begin

section \<open>The per-node VMI metrics collector (package prometheus)\<close>

text \<open>
  A shallow embedding of the Go file of package \<open>prometheus\<close>: the per-family update
  operations \<open>updateMemory\<close>, \<open>updateVcpu\<close>, \<open>updateBlock\<close>, \<open>updateNetwork\<close>, the phase
  histogram, the version sample, \<open>Collect\<close>, \<open>Scrape\<close> and \<open>Report\<close>.

  Go strings are byte sequences: \<open>string\<close> (a list of 8-bit characters). A Go map that
  the code only ranges over (\<open>vmi.Labels\<close>, \<open>vmi.Annotations\<close>) is the list of its entries
  in the order the \<open>range\<close> statement visits them; Go leaves that order unspecified, the
  keys of a map are pairwise distinct. Unsigned 64-bit counters are \<open>64 word\<close>.
  Package-level variables are the fields of the record \<open>Globals\<close>, threaded through every
  operation; the output channel is a record holding what was delivered; a panic is the
  outcome \<open>Panicked\<close>.
\<close>

subsection \<open>Go library functions used by the file\<close>

type_synonym uint64 = "64 word"

text \<open>\<open>strings.NewReplacer\<close> with single-byte old and new strings, and its \<open>Replace\<close>:
  every byte is looked up in the argument pairs, the first pair that matches wins.\<close>

fun Replace :: "(char \<times> char) list \<Rightarrow> string \<Rightarrow> string" where
  "Replace r [] = []"
| "Replace r (c # s) = (case map_of r c of Some n \<Rightarrow> n | None \<Rightarrow> c) # Replace r s"

text \<open>\<open>strings.ToLower\<close> folds every Unicode letter to lower case and rewrites the bytes
  that are not valid UTF-8 to U+FFFD; its case tables are outside this development. The
  operations that call it take it as the parameter \<open>toLower\<close>, and every property of them
  is stated for whatever function it is.\<close>

text \<open>\<open>fmt.Sprintf("%v", n)\<close> for an integer: its decimal digits, with a minus sign.\<close>

definition digit :: "nat \<Rightarrow> char" where
  "digit d = ''0123456789'' ! d"

function decimal :: "nat \<Rightarrow> string" where
  "decimal n = (if n < 10 then [digit n] else decimal (n div 10) @ [digit (n mod 10)])"
  by pat_completeness auto
termination
  by (relation "measure (\<lambda>n. n)") auto

declare decimal.simps [simp del]

definition Sprintf_v :: "int \<Rightarrow> string" where
  "Sprintf_v i = (if i < 0 then CHR ''-'' # decimal (nat (- i)) else decimal (nat i))"

text \<open>\<open>utf8.ValidString\<close>: the byte ranges of well-formed UTF-8.\<close>

definition contByte :: "char \<Rightarrow> bool" where
  "contByte c \<longleftrightarrow> 128 \<le> (of_char c :: nat) \<and> (of_char c :: nat) \<le> 191"

definition inRange :: "nat \<Rightarrow> nat \<Rightarrow> char \<Rightarrow> bool" where
  "inRange lo hi c \<longleftrightarrow> lo \<le> (of_char c :: nat) \<and> (of_char c :: nat) \<le> hi"

fun ValidString :: "string \<Rightarrow> bool" where
  "ValidString [] = True"
| "ValidString (a # s) =
     (if inRange 0 127 a then ValidString s
      else if inRange 194 223 a then
        (case s of b # s1 \<Rightarrow> contByte b \<and> ValidString s1 | _ \<Rightarrow> False)
      else if inRange 224 239 a then
        (case s of b # c # s2 \<Rightarrow>
           (if inRange 224 224 a then inRange 160 191 b
            else if inRange 237 237 a then inRange 128 159 b
            else contByte b) \<and> contByte c \<and> ValidString s2
         | _ \<Rightarrow> False)
      else if inRange 240 244 a then
        (case s of b # c # d # s3 \<Rightarrow>
           (if inRange 240 240 a then inRange 144 191 b
            else if inRange 244 244 a then inRange 128 143 b
            else contByte b) \<and> contByte c \<and> contByte d \<and> ValidString s3
         | _ \<Rightarrow> False)
      else False)"

declare ValidString.simps [simp del]

text \<open>The conversion \<open>float64(n)\<close> of an unsigned integer: the nearest value with a 53-bit
  significand, ties to the even significand. Every result is an integer, kept as a real.\<close>

function bitLen :: "nat \<Rightarrow> nat" where
  "bitLen n = (if n = 0 then 0 else Suc (bitLen (n div 2)))"
  by pat_completeness auto
termination
  by (relation "measure (\<lambda>n. n)") auto

declare bitLen.simps [simp del]

definition float64 :: "nat \<Rightarrow> real" where
  "float64 n =
     (let e = bitLen n - 53; q = n div 2 ^ e; r = n mod 2 ^ e
      in real ((if 2 ^ e < 2 * r \<or> (2 * r = 2 ^ e \<and> odd q) then q + 1 else q) * 2 ^ e))"

text \<open>\<open>time.Duration\<close> is a count of nanoseconds in 64 bits; \<open>Time.Sub\<close> saturates.\<close>

type_synonym Duration = int

definition Second :: Duration where
  "Second = 1000000000"

definition maxDuration :: Duration where
  "maxDuration = 2 ^ 63 - 1"

definition minDuration :: Duration where
  "minDuration = - (2 ^ 63)"

definition Sub :: "int \<Rightarrow> int \<Rightarrow> Duration" where
  "Sub t u =
     (let d = t - u
      in if maxDuration < d then maxDuration else if d < minDuration then minDuration else d)"

subsection \<open>The metrics client library: descriptors and constant metrics\<close>

text \<open>
  \<open>prometheus.NewDesc\<close> and \<open>prometheus.NewConstMetric\<close> belong to the client library, not
  to this repository. They are modelled by the checks the library makes: \<open>NewDesc\<close>
  records an error in the descriptor when the metric name or a label name is not
  well-formed or when two label names coincide; \<open>NewConstMetric\<close> returns that error, or an
  error when the number of label values differs from the number of label names, or when
  a label value is not valid UTF-8.
\<close>

datatype DescError = InvalidMetricName | InvalidLabelName string | DuplicateLabelNames

record Desc =
  fqName :: string
  helpText :: string
  variableLabels :: "string list"
  descErr :: "DescError option"

definition isLetter :: "char \<Rightarrow> bool" where
  "isLetter c \<longleftrightarrow> inRange 97 122 c \<or> inRange 65 90 c \<or> c = CHR ''_''"

definition isDigit :: "char \<Rightarrow> bool" where
  "isDigit c \<longleftrightarrow> inRange 48 57 c"

definition IsValidMetricName :: "string \<Rightarrow> bool" where
  "IsValidMetricName n \<longleftrightarrow>
     (case n of [] \<Rightarrow> False
      | c # s \<Rightarrow> (isLetter c \<or> c = CHR '':'')
          \<and> list_all (\<lambda>b. isLetter b \<or> isDigit b \<or> b = CHR '':'') s)"

definition checkLabelName :: "string \<Rightarrow> bool" where
  "checkLabelName l \<longleftrightarrow>
     (case l of [] \<Rightarrow> False
      | c # s \<Rightarrow> isLetter c \<and> list_all (\<lambda>b. isLetter b \<or> isDigit b) s)
     \<and> take 2 l \<noteq> ''__''"

definition NewDesc :: "string \<Rightarrow> string \<Rightarrow> string list \<Rightarrow> Desc" where
  "NewDesc n h ls =
     \<lparr>fqName = n, helpText = h, variableLabels = ls,
      descErr =
        (if \<not> IsValidMetricName n then Some InvalidMetricName
         else case find (\<lambda>l. \<not> checkLabelName l) ls of
                Some l \<Rightarrow> Some (InvalidLabelName l)
              | None \<Rightarrow> if distinct ls then None else Some DuplicateLabelNames)\<rparr>"

datatype ValueType = CounterValue | GaugeValue

record Metric =
  desc :: Desc
  valType :: ValueType
  val :: real
  labelValues :: "string list"

datatype MetricError =
  DescriptorError DescError | InconsistentCardinality | InvalidLabelValue string

definition validateLabelValues :: "string list \<Rightarrow> nat \<Rightarrow> MetricError option" where
  "validateLabelValues vals expectedNumberOfValues =
     (if length vals \<noteq> expectedNumberOfValues then Some InconsistentCardinality
      else case find (\<lambda>v. \<not> ValidString v) vals of
             Some v \<Rightarrow> Some (InvalidLabelValue v)
           | None \<Rightarrow> None)"

definition NewConstMetric ::
  "Desc \<Rightarrow> ValueType \<Rightarrow> real \<Rightarrow> string list \<Rightarrow> MetricError + Metric" where
  "NewConstMetric d t v vals =
     (case descErr d of
        Some e \<Rightarrow> Inl (DescriptorError e)
      | None \<Rightarrow>
          (case validateLabelValues vals (length (variableLabels d)) of
             Some e \<Rightarrow> Inl e
           | None \<Rightarrow> Inr \<lparr>desc = d, valType = t, val = v, labelValues = vals\<rparr>))"

subsection \<open>The data the collector reads\<close>

text \<open>The fields of a VMI and of its domain statistics that the file reads. The type
  declarations belong to other packages; every optional statistic carries its own
  \<open>...Set\<close> flag.\<close>

record VirtualMachineInstance =
  Namespace :: string
  Name :: string
  Labels :: "(string \<times> string) list"
  Annotations :: "(string \<times> string) list"
  NodeName :: string
  Phase :: string

record DomainStatsMemory =
  AvailableSet :: bool
  Available :: uint64
  RSSSet :: bool
  RSS :: uint64
  SwapInSet :: bool
  SwapIn :: uint64
  SwapOutSet :: bool
  SwapOut :: uint64

record DomainStatsVcpu =
  StateSet :: bool
  State :: int
  TimeSet :: bool
  Time :: uint64

record DomainStatsBlock =
  blockNameSet :: bool
  blockName :: string
  RdReqsSet :: bool
  RdReqs :: uint64
  RdBytesSet :: bool
  RdBytes :: uint64
  RdTimesSet :: bool
  RdTimes :: uint64
  WrReqsSet :: bool
  WrReqs :: uint64
  WrBytesSet :: bool
  WrBytes :: uint64
  WrTimesSet :: bool
  WrTimes :: uint64

record DomainStatsNet =
  netNameSet :: bool
  netName :: string
  RxBytesSet :: bool
  RxBytes :: uint64
  RxPktsSet :: bool
  RxPkts :: uint64
  RxErrsSet :: bool
  RxErrs :: uint64
  TxBytesSet :: bool
  TxBytes :: uint64
  TxPktsSet :: bool
  TxPkts :: uint64
  TxErrsSet :: bool
  TxErrs :: uint64

record DomainStats =
  statsName :: string
  Memory :: DomainStatsMemory
  Vcpu :: "DomainStatsVcpu list"
  Net :: "DomainStatsNet list"
  Block :: "DomainStatsBlock list"

subsection \<open>Package-level variables\<close>

definition labelFormatter :: "(char \<times> char) list" where
  "labelFormatter = [(CHR ''.'', CHR ''_''), (CHR ''/'', CHR ''_''), (CHR ''-'', CHR ''_'')]"

text \<open>\<open>versionDesc\<close> and \<open>vmiCountDesc\<close> are never assigned after their initialisation.\<close>

definition versionDesc :: Desc where
  "versionDesc = NewDesc ''kubevirt_info'' ''Version information'' [''goversion'', ''kubeversion'']"

definition vmiCountDesc :: Desc where
  "vmiCountDesc = NewDesc ''kubevirt_vmi_phase_count'' ''VMI phase.'' [''node'', ''phase'']"

text \<open>The label lists and descriptors of the four families are assigned by the update
  operations: they are the state \<open>Globals\<close>.\<close>

record Globals =
  storageIopsLabels :: "string list"
  storageIopsDesc :: Desc
  storageTrafficLabels :: "string list"
  storageTrafficDesc :: Desc
  storageTimesLabels :: "string list"
  storageTimesDesc :: Desc
  vcpuUsageLabels :: "string list"
  vcpuUsageDesc :: Desc
  networkTrafficBytesLabels :: "string list"
  networkTrafficBytesDesc :: Desc
  networkTrafficPktsLabels :: "string list"
  networkTrafficPktsDesc :: Desc
  networkErrorsLabels :: "string list"
  networkErrorsDesc :: Desc
  memoryAvailableLabels :: "string list"
  memoryAvailableDesc :: Desc
  memoryResidentLabels :: "string list"
  memoryResidentDesc :: Desc
  swapTrafficLabels :: "string list"
  swapTrafficDesc :: Desc

definition newStorageIopsDesc :: "string list \<Rightarrow> Desc" where
  "newStorageIopsDesc ls = NewDesc ''kubevirt_vmi_storage_iops_total'' ''I/O operation performed.'' ls"

definition newStorageTrafficDesc :: "string list \<Rightarrow> Desc" where
  "newStorageTrafficDesc ls = NewDesc ''kubevirt_vmi_storage_traffic_bytes_total'' ''storage traffic.'' ls"

definition newStorageTimesDesc :: "string list \<Rightarrow> Desc" where
  "newStorageTimesDesc ls = NewDesc ''kubevirt_vmi_storage_times_ms_total'' ''storage operation time.'' ls"

definition newVcpuUsageDesc :: "string list \<Rightarrow> Desc" where
  "newVcpuUsageDesc ls = NewDesc ''kubevirt_vmi_vcpu_seconds'' ''Vcpu elapsed time.'' ls"

definition newNetworkTrafficBytesDesc :: "string list \<Rightarrow> Desc" where
  "newNetworkTrafficBytesDesc ls = NewDesc ''kubevirt_vmi_network_traffic_bytes_total'' ''network traffic.'' ls"

definition newNetworkTrafficPktsDesc :: "string list \<Rightarrow> Desc" where
  "newNetworkTrafficPktsDesc ls = NewDesc ''kubevirt_vmi_network_traffic_packets_total'' ''network traffic.'' ls"

definition newNetworkErrorsDesc :: "string list \<Rightarrow> Desc" where
  "newNetworkErrorsDesc ls = NewDesc ''kubevirt_vmi_network_errors_total'' ''network errors.'' ls"

definition newMemoryAvailableDesc :: "string list \<Rightarrow> Desc" where
  "newMemoryAvailableDesc ls =
     NewDesc ''kubevirt_vmi_memory_available_bytes'' ''amount of usable memory as seen by the domain.'' ls"

definition newMemoryResidentDesc :: "string list \<Rightarrow> Desc" where
  "newMemoryResidentDesc ls =
     NewDesc ''kubevirt_vmi_memory_resident_bytes'' ''resident set size of the process running the domain'' ls"

definition newSwapTrafficDesc :: "string list \<Rightarrow> Desc" where
  "newSwapTrafficDesc ls = NewDesc ''kubevirt_vmi_memory_swap_traffic_bytes_total'' ''swap memory traffic.'' ls"

text \<open>The values of the \<open>var\<close> block when the package is initialised.\<close>

definition initGlobals :: Globals where
  "initGlobals =
     \<lparr>storageIopsLabels = [''node'', ''namespace'', ''name'', ''drive'', ''type''],
      storageIopsDesc = newStorageIopsDesc [''node'', ''namespace'', ''name'', ''drive'', ''type''],
      storageTrafficLabels = [''node'', ''namespace'', ''name'', ''drive'', ''type''],
      storageTrafficDesc = newStorageTrafficDesc [''node'', ''namespace'', ''name'', ''drive'', ''type''],
      storageTimesLabels = [''node'', ''namespace'', ''name'', ''drive'', ''type''],
      storageTimesDesc = newStorageTimesDesc [''node'', ''namespace'', ''name'', ''drive'', ''type''],
      vcpuUsageLabels = [''node'', ''namespace'', ''name'', ''id'', ''state''],
      vcpuUsageDesc = newVcpuUsageDesc [''node'', ''namespace'', ''name'', ''id'', ''state''],
      networkTrafficBytesLabels = [''node'', ''namespace'', ''name'', ''interface'', ''type''],
      networkTrafficBytesDesc =
        newNetworkTrafficBytesDesc [''node'', ''namespace'', ''name'', ''interface'', ''type''],
      networkTrafficPktsLabels = [''node'', ''namespace'', ''name'', ''interface'', ''type''],
      networkTrafficPktsDesc =
        newNetworkTrafficPktsDesc [''node'', ''namespace'', ''name'', ''interface'', ''type''],
      networkErrorsLabels = [''node'', ''namespace'', ''name'', ''interface'', ''type''],
      networkErrorsDesc = newNetworkErrorsDesc [''node'', ''namespace'', ''name'', ''interface'', ''type''],
      memoryAvailableLabels = [''node'', ''namespace'', ''name''],
      memoryAvailableDesc = newMemoryAvailableDesc [''node'', ''namespace'', ''name''],
      memoryResidentLabels = [''node'', ''namespace'', ''name''],
      memoryResidentDesc = newMemoryResidentDesc [''node'', ''namespace'', ''name''],
      swapTrafficLabels = [''node'', ''namespace'', ''name'', ''type''],
      swapTrafficDesc = newSwapTrafficDesc [''node'', ''namespace'', ''name'', ''type'']\<rparr>"

subsection \<open>The output channel, the log and panics\<close>

text \<open>
  The channel \<open>ch\<close> holds the samples delivered so far. Another goroutine may close it:
  \<open>remaining = Some k\<close> says that the channel takes \<open>k\<close> more samples and is closed then,
  \<open>None\<close> that it stays open. A send on a closed channel panics. A panic stops the
  operation that raised it and every caller up to a \<open>recover\<close>; the state reached so far
  stays.
\<close>

record Chan =
  sent :: "Metric list"
  remaining :: "nat option"

datatype Severity = Info | Warning | Error

record LogEntry =
  verbosity :: "nat option"
  severity :: Severity
  message :: string

record World =
  vars :: Globals
  ch :: Chan
  logs :: "LogEntry list"

datatype outcome = Normal | Panicked

definition logf :: "nat option \<Rightarrow> Severity \<Rightarrow> string \<Rightarrow> World \<Rightarrow> World" where
  "logf v s m w = w\<lparr>logs := logs w @ [\<lparr>verbosity = v, severity = s, message = m\<rparr>]\<rparr>"

definition chanSend :: "Metric \<Rightarrow> Chan \<Rightarrow> outcome \<times> Chan" where
  "chanSend mv c =
     (case remaining c of
        None \<Rightarrow> (Normal, c\<lparr>sent := sent c @ [mv]\<rparr>)
      | Some 0 \<Rightarrow> (Panicked, c)
      | Some (Suc k) \<Rightarrow> (Normal, \<lparr>sent = sent c @ [mv], remaining = Some k\<rparr>))"

definition send :: "Metric \<Rightarrow> World \<Rightarrow> outcome \<times> World" where
  "send mv w = (case chanSend mv (ch w) of (r, c) \<Rightarrow> (r, w\<lparr>ch := c\<rparr>))"

definition skip :: "World \<Rightarrow> outcome \<times> World" where
  "skip w = (Normal, w)"

definition andThen ::
  "(World \<Rightarrow> outcome \<times> World) \<Rightarrow> (World \<Rightarrow> outcome \<times> World) \<Rightarrow> World \<Rightarrow> outcome \<times> World" where
  "andThen f g w = (case f w of (Normal, w') \<Rightarrow> g w' | (Panicked, w') \<Rightarrow> (Panicked, w'))"

definition whenSet :: "bool \<Rightarrow> (World \<Rightarrow> outcome \<times> World) \<Rightarrow> World \<Rightarrow> outcome \<times> World" where
  "whenSet b f = (if b then f else skip)"

text \<open>A \<open>for ... range\<close> loop over a slice; \<open>continue\<close> is a body that returns normally.\<close>

fun forRange ::
  "(nat \<Rightarrow> 'a \<Rightarrow> World \<Rightarrow> outcome \<times> World) \<Rightarrow> nat \<Rightarrow> 'a list \<Rightarrow> World \<Rightarrow> outcome \<times> World" where
  "forRange body i [] w = (Normal, w)"
| "forRange body i (x # xs) w =
     (case body i x w of
        (Normal, w') \<Rightarrow> forRange body (Suc i) xs w'
      | (Panicked, w') \<Rightarrow> (Panicked, w'))"

definition tryToPushMetric :: "Desc \<Rightarrow> MetricError + Metric \<Rightarrow> World \<Rightarrow> outcome \<times> World" where
  "tryToPushMetric d r w =
     (case r of
        Inl err \<Rightarrow> (Normal, logf (Some 4) Warning ''Error creating the new const metric for %s: %s'' w)
      | Inr mv \<Rightarrow> send mv w)"

text \<open>The pair of statements \<open>mv, err := NewConstMetric(d, ...); tryToPushMetric(d, mv, err, ch)\<close>
  where \<open>d\<close> is a package-level descriptor, read when the statements run.\<close>

definition pushConst ::
  "(Globals \<Rightarrow> Desc) \<Rightarrow> ValueType \<Rightarrow> real \<Rightarrow> string list \<Rightarrow> World \<Rightarrow> outcome \<times> World" where
  "pushConst d t v vals w = tryToPushMetric (d (vars w)) (NewConstMetric (d (vars w)) t v vals) w"

definition labelPreffix :: string where
  "labelPreffix = ''vmi_k8s_label_''"

definition annotationPreffix :: string where
  "annotationPreffix = ''vmi_k8s_annotation_''"

subsection \<open>updateMemory\<close>

record memoryValues =
  memoryResidentLabelValues :: "string list"
  memoryAvailableLabelsValues :: "string list"
  swapTrafficInLabelsValues :: "string list"
  swapTrafficOutLabelsValues :: "string list"

text \<open>The body of the two metadata loops, which differ in the prefix only.\<close>

definition updateMemory_append ::
  "string \<Rightarrow> string \<times> string \<Rightarrow> Globals \<times> memoryValues \<Rightarrow> Globals \<times> memoryValues" where
  "updateMemory_append preffix kv s =
     (case kv of (label, v) \<Rightarrow> case s of (g, l) \<Rightarrow>
        (g\<lparr>memoryResidentLabels := memoryResidentLabels g @ [preffix @ Replace labelFormatter label],
           memoryAvailableLabels := memoryAvailableLabels g @ [preffix @ Replace labelFormatter label],
           swapTrafficLabels := swapTrafficLabels g @ [preffix @ Replace labelFormatter label]\<rparr>,
         l\<lparr>memoryResidentLabelValues := memoryResidentLabelValues l @ [v],
           memoryAvailableLabelsValues := memoryAvailableLabelsValues l @ [v],
           swapTrafficInLabelsValues := swapTrafficInLabelsValues l @ [v],
           swapTrafficOutLabelsValues := swapTrafficOutLabelsValues l @ [v]\<rparr>))"

text \<open>The first half of \<open>updateMemory\<close>: the label lists and the descriptors.\<close>

definition updateMemory_labels ::
  "VirtualMachineInstance \<Rightarrow> Globals \<Rightarrow> Globals \<times> memoryValues" where
  "updateMemory_labels vmi g =
     (let g0 = g\<lparr>memoryResidentLabels := [''node'', ''namespace'', ''name''],
                 memoryAvailableLabels := [''node'', ''namespace'', ''name''],
                 swapTrafficLabels := [''node'', ''namespace'', ''name'', ''type'']\<rparr>;
          l0 = \<lparr>memoryResidentLabelValues = [NodeName vmi, Namespace vmi, Name vmi],
                memoryAvailableLabelsValues = [NodeName vmi, Namespace vmi, Name vmi],
                swapTrafficInLabelsValues = [NodeName vmi, Namespace vmi, Name vmi, ''in''],
                swapTrafficOutLabelsValues = [NodeName vmi, Namespace vmi, Name vmi, ''out'']\<rparr>;
          s1 = fold (updateMemory_append labelPreffix) (Labels vmi) (g0, l0);
          s2 = fold (updateMemory_append annotationPreffix) (Annotations vmi) s1
      in case s2 of (g2, l2) \<Rightarrow>
           (g2\<lparr>memoryResidentDesc := newMemoryResidentDesc (memoryResidentLabels g2),
               memoryAvailableDesc := newMemoryAvailableDesc (memoryAvailableLabels g2),
               swapTrafficDesc := newSwapTrafficDesc (swapTrafficLabels g2)\<rparr>, l2))"

definition updateMemory ::
  "VirtualMachineInstance \<Rightarrow> DomainStats \<Rightarrow> World \<Rightarrow> outcome \<times> World" where
  "updateMemory vmi vmStats w =
     (case updateMemory_labels vmi (vars w) of (g, l) \<Rightarrow>
        andThen
          (whenSet (RSSSet (Memory vmStats))
             (pushConst memoryResidentDesc GaugeValue
                (float64 (unat (RSS (Memory vmStats))) * 1024) (memoryResidentLabelValues l)))
          (andThen
             (whenSet (AvailableSet (Memory vmStats))
                (pushConst memoryAvailableDesc GaugeValue
                   (float64 (unat (Available (Memory vmStats))) * 1024) (memoryAvailableLabelsValues l)))
             (andThen
                (whenSet (SwapInSet (Memory vmStats))
                   (pushConst swapTrafficDesc GaugeValue
                      (float64 (unat (SwapIn (Memory vmStats))) * 1024) (swapTrafficInLabelsValues l)))
                (whenSet (SwapOutSet (Memory vmStats))
                   (pushConst swapTrafficDesc GaugeValue
                      (float64 (unat (SwapOut (Memory vmStats))) * 1024) (swapTrafficOutLabelsValues l)))))
          (w\<lparr>vars := g\<rparr>))"

subsection \<open>updateVcpu\<close>

definition updateVcpu_append ::
  "string \<Rightarrow> string \<times> string \<Rightarrow> Globals \<times> string list \<Rightarrow> Globals \<times> string list" where
  "updateVcpu_append preffix kv s =
     (case kv of (label, v) \<Rightarrow> case s of (g, vcpuUsageLabelsValues) \<Rightarrow>
        (g\<lparr>vcpuUsageLabels := vcpuUsageLabels g @ [preffix @ Replace labelFormatter label]\<rparr>,
         vcpuUsageLabelsValues @ [v]))"

definition updateVcpu_labels ::
  "VirtualMachineInstance \<Rightarrow> nat \<Rightarrow> DomainStatsVcpu \<Rightarrow> Globals \<Rightarrow> Globals \<times> string list" where
  "updateVcpu_labels vmi vcpuId vcpu g =
     (let g0 = g\<lparr>vcpuUsageLabels := [''node'', ''namespace'', ''name'', ''id'', ''state'']\<rparr>;
          l0 = [NodeName vmi, Namespace vmi, Name vmi, Sprintf_v (int vcpuId), Sprintf_v (State vcpu)];
          s1 = fold (updateVcpu_append labelPreffix) (Labels vmi) (g0, l0);
          s2 = fold (updateVcpu_append annotationPreffix) (Annotations vmi) s1
      in case s2 of (g2, l2) \<Rightarrow> (g2\<lparr>vcpuUsageDesc := newVcpuUsageDesc (vcpuUsageLabels g2)\<rparr>, l2))"

text \<open>One iteration of the loop over \<open>vmStats.Vcpu\<close>. The division is the integer division
  of two unsigned 64-bit values; its quotient is converted.\<close>

definition updateVcpu_body ::
  "VirtualMachineInstance \<Rightarrow> nat \<Rightarrow> DomainStatsVcpu \<Rightarrow> World \<Rightarrow> outcome \<times> World" where
  "updateVcpu_body vmi vcpuId vcpu w =
     (case updateVcpu_labels vmi vcpuId vcpu (vars w) of (g, vcpuUsageLabelsValues) \<Rightarrow>
        if \<not> StateSet vcpu \<or> \<not> TimeSet vcpu
        then (Normal, logf (Some 4) Warning ''State or time not set for vcpu#%d'' (w\<lparr>vars := g\<rparr>))
        else pushConst vcpuUsageDesc GaugeValue
               (float64 (unat (Time vcpu div 1000000000))) vcpuUsageLabelsValues (w\<lparr>vars := g\<rparr>))"

definition updateVcpu ::
  "VirtualMachineInstance \<Rightarrow> DomainStats \<Rightarrow> World \<Rightarrow> outcome \<times> World" where
  "updateVcpu vmi vmStats w = forRange (updateVcpu_body vmi) 0 (Vcpu vmStats) w"

subsection \<open>updateBlock\<close>

record blockValues =
  storageIopsReadLabelsValues :: "string list"
  storageIopsWriteLabelsValues :: "string list"
  storageTrafficReadLabelsValues :: "string list"
  storageTrafficWriteLabelsValues :: "string list"
  storageTimesReadLabelsValues :: "string list"
  storageTimesWriteLabelsValues :: "string list"

text \<open>The body of the metadata loops. The write list of the iops family is assigned
  \<open>append(storageIopsReadLabelsValues, val)\<close>, after the read list has taken \<open>val\<close>.\<close>

definition updateBlock_append ::
  "string \<Rightarrow> string \<times> string \<Rightarrow> Globals \<times> blockValues \<Rightarrow> Globals \<times> blockValues" where
  "updateBlock_append preffix kv s =
     (case kv of (label, v) \<Rightarrow> case s of (g, l) \<Rightarrow>
        (g\<lparr>storageIopsLabels := storageIopsLabels g @ [preffix @ Replace labelFormatter label],
           storageTrafficLabels := storageTrafficLabels g @ [preffix @ Replace labelFormatter label],
           storageTimesLabels := storageTimesLabels g @ [preffix @ Replace labelFormatter label]\<rparr>,
         l\<lparr>storageIopsReadLabelsValues := storageIopsReadLabelsValues l @ [v],
           storageIopsWriteLabelsValues := (storageIopsReadLabelsValues l @ [v]) @ [v],
           storageTrafficReadLabelsValues := storageTrafficReadLabelsValues l @ [v],
           storageTrafficWriteLabelsValues := storageTrafficWriteLabelsValues l @ [v],
           storageTimesReadLabelsValues := storageTimesReadLabelsValues l @ [v],
           storageTimesWriteLabelsValues := storageTimesWriteLabelsValues l @ [v]\<rparr>))"

definition updateBlock_labels ::
  "VirtualMachineInstance \<Rightarrow> DomainStatsBlock \<Rightarrow> Globals \<Rightarrow> Globals \<times> blockValues" where
  "updateBlock_labels vmi block g =
     (let g0 = g\<lparr>storageIopsLabels := [''node'', ''namespace'', ''name'', ''drive'', ''type''],
                 storageTrafficLabels := [''node'', ''namespace'', ''name'', ''drive'', ''type''],
                 storageTimesLabels := [''node'', ''namespace'', ''name'', ''drive'', ''type'']\<rparr>;
          l0 = \<lparr>storageIopsReadLabelsValues =
                  [NodeName vmi, Namespace vmi, Name vmi, blockName block, ''read''],
                storageIopsWriteLabelsValues =
                  [NodeName vmi, Namespace vmi, Name vmi, blockName block, ''write''],
                storageTrafficReadLabelsValues =
                  [NodeName vmi, Namespace vmi, Name vmi, blockName block, ''read''],
                storageTrafficWriteLabelsValues =
                  [NodeName vmi, Namespace vmi, Name vmi, blockName block, ''write''],
                storageTimesReadLabelsValues =
                  [NodeName vmi, Namespace vmi, Name vmi, blockName block, ''read''],
                storageTimesWriteLabelsValues =
                  [NodeName vmi, Namespace vmi, Name vmi, blockName block, ''write'']\<rparr>;
          s1 = fold (updateBlock_append labelPreffix) (Labels vmi) (g0, l0);
          s2 = fold (updateBlock_append annotationPreffix) (Annotations vmi) s1
      in case s2 of (g2, l2) \<Rightarrow>
           (g2\<lparr>storageIopsDesc := newStorageIopsDesc (storageIopsLabels g2),
               storageTrafficDesc := newStorageTrafficDesc (storageTrafficLabels g2),
               storageTimesDesc := newStorageTimesDesc (storageTimesLabels g2)\<rparr>, l2))"

definition updateBlock_body ::
  "VirtualMachineInstance \<Rightarrow> nat \<Rightarrow> DomainStatsBlock \<Rightarrow> World \<Rightarrow> outcome \<times> World" where
  "updateBlock_body vmi blockId block w =
     (case updateBlock_labels vmi block (vars w) of (g, l) \<Rightarrow>
        if \<not> blockNameSet block
        then (Normal, logf (Some 4) Warning ''Name not set for block device#%d'' (w\<lparr>vars := g\<rparr>))
        else
          andThen
            (whenSet (RdReqsSet block)
               (pushConst storageIopsDesc CounterValue
                  (float64 (unat (RdReqs block))) (storageIopsReadLabelsValues l)))
         (andThen
            (whenSet (WrReqsSet block)
               (pushConst storageIopsDesc CounterValue
                  (float64 (unat (WrReqs block))) (storageIopsWriteLabelsValues l)))
         (andThen
            (whenSet (RdBytesSet block)
               (pushConst storageTrafficDesc CounterValue
                  (float64 (unat (RdBytes block))) (storageTrafficReadLabelsValues l)))
         (andThen
            (whenSet (WrBytesSet block)
               (pushConst storageTrafficDesc CounterValue
                  (float64 (unat (WrBytes block))) (storageTrafficWriteLabelsValues l)))
         (andThen
            (whenSet (RdTimesSet block)
               (pushConst storageTimesDesc CounterValue
                  (float64 (unat (RdTimes block))) (storageTimesReadLabelsValues l)))
            (whenSet (WrTimesSet block)
               (pushConst storageTimesDesc CounterValue
                  (float64 (unat (WrTimes block))) (storageTimesWriteLabelsValues l)))))))
            (w\<lparr>vars := g\<rparr>))"

definition updateBlock ::
  "VirtualMachineInstance \<Rightarrow> DomainStats \<Rightarrow> World \<Rightarrow> outcome \<times> World" where
  "updateBlock vmi vmStats w = forRange (updateBlock_body vmi) 0 (Block vmStats) w"

subsection \<open>updateNetwork\<close>

record networkValues =
  networkTrafficBytesRxLabelsValues :: "string list"
  networkTrafficBytesTxLabelsValues :: "string list"
  networkTrafficPktsRxLabelsValues :: "string list"
  networkTrafficPktsTxLabelsValues :: "string list"
  networkErrorsRxLabelsValues :: "string list"
  networkErrorsTxLabelsValues :: "string list"

definition updateNetwork_append ::
  "string \<Rightarrow> string \<times> string \<Rightarrow> Globals \<times> networkValues \<Rightarrow> Globals \<times> networkValues" where
  "updateNetwork_append preffix kv s =
     (case kv of (label, v) \<Rightarrow> case s of (g, l) \<Rightarrow>
        (g\<lparr>networkTrafficBytesLabels :=
             networkTrafficBytesLabels g @ [preffix @ Replace labelFormatter label],
           networkTrafficPktsLabels :=
             networkTrafficPktsLabels g @ [preffix @ Replace labelFormatter label],
           networkErrorsLabels := networkErrorsLabels g @ [preffix @ Replace labelFormatter label]\<rparr>,
         l\<lparr>networkTrafficBytesRxLabelsValues := networkTrafficBytesRxLabelsValues l @ [v],
           networkTrafficBytesTxLabelsValues := networkTrafficBytesTxLabelsValues l @ [v],
           networkTrafficPktsRxLabelsValues := networkTrafficPktsRxLabelsValues l @ [v],
           networkTrafficPktsTxLabelsValues := networkTrafficPktsTxLabelsValues l @ [v],
           networkErrorsRxLabelsValues := networkErrorsRxLabelsValues l @ [v],
           networkErrorsTxLabelsValues := networkErrorsTxLabelsValues l @ [v]\<rparr>))"

definition updateNetwork_labels ::
  "VirtualMachineInstance \<Rightarrow> DomainStatsNet \<Rightarrow> Globals \<Rightarrow> Globals \<times> networkValues" where
  "updateNetwork_labels vmi net g =
     (let g0 = g\<lparr>networkTrafficBytesLabels := [''node'', ''namespace'', ''name'', ''interface'', ''type''],
                 networkTrafficPktsLabels := [''node'', ''namespace'', ''name'', ''interface'', ''type''],
                 networkErrorsLabels := [''node'', ''namespace'', ''name'', ''interface'', ''type'']\<rparr>;
          l0 = \<lparr>networkTrafficBytesRxLabelsValues =
                  [NodeName vmi, Namespace vmi, Name vmi, netName net, ''rx''],
                networkTrafficBytesTxLabelsValues =
                  [NodeName vmi, Namespace vmi, Name vmi, netName net, ''tx''],
                networkTrafficPktsRxLabelsValues =
                  [NodeName vmi, Namespace vmi, Name vmi, netName net, ''rx''],
                networkTrafficPktsTxLabelsValues =
                  [NodeName vmi, Namespace vmi, Name vmi, netName net, ''tx''],
                networkErrorsRxLabelsValues =
                  [NodeName vmi, Namespace vmi, Name vmi, netName net, ''rx''],
                networkErrorsTxLabelsValues =
                  [NodeName vmi, Namespace vmi, Name vmi, netName net, ''tx'']\<rparr>;
          s1 = fold (updateNetwork_append labelPreffix) (Labels vmi) (g0, l0);
          s2 = fold (updateNetwork_append annotationPreffix) (Annotations vmi) s1
      in case s2 of (g2, l2) \<Rightarrow>
           (g2\<lparr>networkTrafficBytesDesc := newNetworkTrafficBytesDesc (networkTrafficBytesLabels g2),
               networkTrafficPktsDesc := newNetworkTrafficPktsDesc (networkTrafficPktsLabels g2),
               networkErrorsDesc := newNetworkErrorsDesc (networkErrorsLabels g2)\<rparr>, l2))"

definition updateNetwork_body ::
  "VirtualMachineInstance \<Rightarrow> nat \<Rightarrow> DomainStatsNet \<Rightarrow> World \<Rightarrow> outcome \<times> World" where
  "updateNetwork_body vmi i net w =
     (case updateNetwork_labels vmi net (vars w) of (g, l) \<Rightarrow>
        if \<not> netNameSet net then (Normal, w\<lparr>vars := g\<rparr>)
        else
          andThen
            (whenSet (RxBytesSet net)
               (pushConst networkTrafficBytesDesc CounterValue
                  (float64 (unat (RxBytes net))) (networkTrafficBytesRxLabelsValues l)))
         (andThen
            (whenSet (RxPktsSet net)
               (pushConst networkTrafficPktsDesc CounterValue
                  (float64 (unat (RxPkts net))) (networkTrafficPktsRxLabelsValues l)))
         (andThen
            (whenSet (RxErrsSet net)
               (pushConst networkErrorsDesc CounterValue
                  (float64 (unat (RxErrs net))) (networkErrorsRxLabelsValues l)))
         (andThen
            (whenSet (TxBytesSet net)
               (pushConst networkTrafficBytesDesc CounterValue
                  (float64 (unat (TxBytes net))) (networkTrafficBytesTxLabelsValues l)))
         (andThen
            (whenSet (TxPktsSet net)
               (pushConst networkTrafficPktsDesc CounterValue
                  (float64 (unat (TxPkts net))) (networkTrafficPktsTxLabelsValues l)))
            (whenSet (TxErrsSet net)
               (pushConst networkErrorsDesc CounterValue
                  (float64 (unat (TxErrs net))) (networkErrorsTxLabelsValues l)))))))
            (w\<lparr>vars := g\<rparr>))"

definition updateNetwork ::
  "VirtualMachineInstance \<Rightarrow> DomainStats \<Rightarrow> World \<Rightarrow> outcome \<times> World" where
  "updateNetwork vmi vmStats w = forRange (updateNetwork_body vmi) 0 (Net vmStats) w"

subsection \<open>Phase histogram and version sample\<close>

text \<open>The map \<open>phasesMap\<close> is an association list with pairwise distinct keys;
  \<open>phasesMap[k] += 1\<close> reads 0 for a key that is absent. The loop of \<open>updateVMIsPhase\<close>
  visits the entries in the order of the list (Go leaves the order unspecified).\<close>

definition makeVMIsPhasesMap ::
  "(string \<Rightarrow> string) \<Rightarrow> VirtualMachineInstance list \<Rightarrow> (string \<times> uint64) list" where
  "makeVMIsPhasesMap toLower vmis =
     fold (\<lambda>vmi phasesMap.
             AList.update (toLower (Phase vmi))
               ((case map_of phasesMap (toLower (Phase vmi)) of None \<Rightarrow> 0 | Some c \<Rightarrow> c) + 1)
               phasesMap)
       vmis []"

definition updateVMIsPhase_body ::
  "string \<Rightarrow> nat \<Rightarrow> string \<times> uint64 \<Rightarrow> World \<Rightarrow> outcome \<times> World" where
  "updateVMIsPhase_body nodeName i e w =
     (case e of (phase, count) \<Rightarrow>
        (case NewConstMetric vmiCountDesc GaugeValue (float64 (unat count)) [nodeName, phase] of
           Inl err \<Rightarrow> (Normal, w)
         | Inr mv \<Rightarrow> send mv w))"

definition updateVMIsPhase ::
  "(string \<Rightarrow> string) \<Rightarrow> string \<Rightarrow> VirtualMachineInstance list \<Rightarrow> World
     \<Rightarrow> outcome \<times> World" where
  "updateVMIsPhase toLower nodeName vmis w =
     forRange (updateVMIsPhase_body nodeName) 0 (makeVMIsPhasesMap toLower vmis) w"

text \<open>\<open>version.Get()\<close> answers with the build's version strings; \<open>MustNewConstMetric\<close>
  panics where \<open>NewConstMetric\<close> returns an error.\<close>

record VersionInfo =
  GoVersion :: string
  GitVersion :: string

definition updateVersion :: "VersionInfo \<Rightarrow> World \<Rightarrow> outcome \<times> World" where
  "updateVersion verinfo w =
     (case NewConstMetric versionDesc GaugeValue 1 [GoVersion verinfo, GitVersion verinfo] of
        Inl err \<Rightarrow> (Panicked, w)
      | Inr mv \<Rightarrow> send mv w)"

subsection \<open>Report and Scrape\<close>

text \<open>\<open>Report\<close> runs the four update operations under a deferred \<open>recover\<close>: a panic of one
  of them ends the sequence, the deferred function logs it, and \<open>Report\<close> returns normally.\<close>

definition Report_updates ::
  "VirtualMachineInstance \<Rightarrow> DomainStats \<Rightarrow> World \<Rightarrow> outcome \<times> World" where
  "Report_updates vmi vmStats =
     andThen (updateMemory vmi vmStats)
       (andThen (updateVcpu vmi vmStats)
          (andThen (updateBlock vmi vmStats) (updateNetwork vmi vmStats)))"

definition Report ::
  "string \<Rightarrow> VirtualMachineInstance \<Rightarrow> DomainStats \<Rightarrow> World \<Rightarrow> outcome \<times> World" where
  "Report socketFile vmi vmStats w =
     (case Report_updates vmi vmStats w of
        (Normal, w') \<Rightarrow> (Normal, w')
      | (Panicked, w') \<Rightarrow>
          (Normal, logf (Some 2) Warning ''collector goroutine panicked for VM %s: %s'' w'))"

text \<open>
  What the command client and the clock answer during one \<open>Scrape\<close>: the error of
  \<open>cmdclient.NewClient\<close> (if any), the three results of \<open>GetDomainStats\<close>, and the two
  readings of \<open>time.Now()\<close> in nanoseconds. \<open>collectionTimeout\<close> is a constant of the
  package declared in another file.
\<close>

record CmdClient =
  NewClient :: "string \<Rightarrow> string option"
  GetDomainStats :: "string \<Rightarrow> DomainStats \<times> bool \<times> string option"
  ts :: int
  now :: int

definition statsMaxAge :: "Duration \<Rightarrow> Duration" where
  "statsMaxAge collectionTimeout = collectionTimeout + 2 * Second"

definition Scrape ::
  "Duration \<Rightarrow> CmdClient \<Rightarrow> string \<Rightarrow> VirtualMachineInstance \<Rightarrow> World \<Rightarrow> outcome \<times> World" where
  "Scrape collectionTimeout cli socketFile vmi w =
     (case NewClient cli socketFile of
        Some err \<Rightarrow> (Normal, logf None Error ''failed to connect to cmd client socket'' w)
      | None \<Rightarrow>
          (case GetDomainStats cli socketFile of (vmStats, exists, err) \<Rightarrow>
             if err \<noteq> None
             then (Normal, logf None Error ''failed to update stats from socket %s'' w)
             else if \<not> exists \<or> statsName vmStats = []
             then (Normal, logf (Some 2) Info ''disappearing VM on %s, ignored'' w)
             else if statsMaxAge collectionTimeout < Sub (now cli) (ts cli)
             then (Normal, logf None Info ''took too long (%v) to collect stats from %s: ignored'' w)
             else Report socketFile vmi vmStats w))"

subsection \<open>Collect\<close>

text \<open>The socket map: a later VMI that resolves to the same path replaces the earlier
  one; the \<open>nil\<close> map of the empty input reads as the empty map.\<close>

definition newvmiSocketMapFromVMIs ::
  "(VirtualMachineInstance \<Rightarrow> string + string) \<Rightarrow> string \<Rightarrow> VirtualMachineInstance list
     \<Rightarrow> (string \<times> VirtualMachineInstance) list" where
  "newvmiSocketMapFromVMIs FindSocketOnHost baseDir vmis =
     (if length vmis = 0 then []
      else fold (\<lambda>vmi ret.
                   case FindSocketOnHost vmi of
                     Inl err \<Rightarrow> ret
                   | Inr socketPath \<Rightarrow> AList.update socketPath vmi ret)
             vmis [])"

text \<open>
  The collaborators of \<open>Collect\<close> are parameters: the version of the build, the VMI
  directory \<open>lookup.VirtualMachinesOnNode\<close>, the resolver \<open>cmdclient.FindSocketOnHost\<close>,
  and \<open>concCollect\<close>, the method \<open>Collect\<close> of the concurrent collector, declared in
  another file: given the socket map it runs the scrape tasks and returns; it may
  deliver any samples and assign any package-level variable. The last field is the
  library function \<open>strings.ToLower\<close>. The method \<open>Collect\<close> of
  \<open>Collector\<close> is \<open>Collector_Collect\<close> here, \<open>Collect\<close> being a constant of HOL.
\<close>

record Collaborators =
  version_Get :: VersionInfo
  VirtualMachinesOnNode :: "string \<Rightarrow> string + VirtualMachineInstance list"
  FindSocketOnHost :: "VirtualMachineInstance \<Rightarrow> string + string"
  concCollect :: "(string \<times> VirtualMachineInstance) list \<Rightarrow> World \<Rightarrow> World"
  strings_ToLower :: "string \<Rightarrow> string"

record Collector =
  virtShareDir :: string
  nodeName :: string

definition Collector_Collect :: "Collaborators \<Rightarrow> Collector \<Rightarrow> World \<Rightarrow> outcome \<times> World" where
  "Collector_Collect env co w =
     andThen (updateVersion (version_Get env))
       (\<lambda>w1. case VirtualMachinesOnNode env (nodeName co) of
                Inl err \<Rightarrow> (Normal, logf None Error ''failed to list all VMIs in %s: %s'' w1)
              | Inr vmis \<Rightarrow>
                  if length vmis = 0 then (Normal, logf (Some 4) Info ''No VMIs detected'' w1)
                  else updateVMIsPhase (strings_ToLower env) (nodeName co) vmis
                         (concCollect env
                            (newvmiSocketMapFromVMIs (FindSocketOnHost env) (virtShareDir co) vmis) w1))
       w"

subsection \<open>Notions used in the statements\<close>

text \<open>The sanitisation in the words of the specification: each of \<open>.\<close>, \<open>/\<close> and \<open>-\<close> is
  replaced by \<open>_\<close>.\<close>

definition sanitize :: "string \<Rightarrow> string" where
  "sanitize k = map (\<lambda>c. if c = CHR ''.'' \<or> c = CHR ''/'' \<or> c = CHR ''-'' then CHR ''_'' else c) k"

text \<open>The label names and label values that the metadata of a VMI contributes, in the
  order of the two loops: labels first, annotations second.\<close>

definition metadataNames :: "VirtualMachineInstance \<Rightarrow> string list" where
  "metadataNames vmi =
     map (\<lambda>kv. labelPreffix @ Replace labelFormatter (fst kv)) (Labels vmi)
     @ map (\<lambda>kv. annotationPreffix @ Replace labelFormatter (fst kv)) (Annotations vmi)"

definition metadataValues :: "VirtualMachineInstance \<Rightarrow> string list" where
  "metadataValues vmi = map snd (Labels vmi) @ map snd (Annotations vmi)"


text \<open>Offering the results of a run of \<open>NewConstMetric\<close> calls to a channel: an error is
  dropped, a metric is sent, a send on the closed channel panics and ends the run.\<close>

fun offer :: "(MetricError + Metric) list \<Rightarrow> Chan \<Rightarrow> outcome \<times> Chan" where
  "offer [] c = (Normal, c)"
| "offer (Inl e # rs) c = offer rs c"
| "offer (Inr mv # rs) c =
     (case chanSend mv c of (Normal, c') \<Rightarrow> offer rs c' | (Panicked, c') \<Rightarrow> (Panicked, c'))"

text \<open>\<open>delivers G f rs\<close>: started with the package-level variables \<open>G\<close>, the operation \<open>f\<close>
  leaves them as they are and offers \<open>rs\<close>. \<open>rebuilds U f rs\<close>: the operation \<open>f\<close> turns the
  package-level variables \<open>g\<close> into \<open>U g\<close> and offers \<open>rs\<close>, whatever \<open>g\<close> is.\<close>

definition delivers ::
  "Globals \<Rightarrow> (World \<Rightarrow> outcome \<times> World) \<Rightarrow> (MetricError + Metric) list \<Rightarrow> bool" where
  "delivers G f rs \<longleftrightarrow>
     (\<forall>w. vars w = G \<longrightarrow>
        vars (snd (f w)) = G \<and> fst (f w) = fst (offer rs (ch w)) \<and> ch (snd (f w)) = snd (offer rs (ch w)))"

definition rebuilds ::
  "(Globals \<Rightarrow> Globals) \<Rightarrow> (World \<Rightarrow> outcome \<times> World) \<Rightarrow> (MetricError + Metric) list \<Rightarrow> bool" where
  "rebuilds U f rs \<longleftrightarrow>
     (\<forall>w. vars (snd (f w)) = U (vars w) \<and> fst (f w) = fst (offer rs (ch w))
          \<and> ch (snd (f w)) = snd (offer rs (ch w)))"

text \<open>What each update operation assigns to the package-level variables.\<close>

definition memoryGlobals :: "VirtualMachineInstance \<Rightarrow> Globals \<Rightarrow> Globals" where
  "memoryGlobals vmi g =
     g\<lparr>memoryResidentLabels := [''node'', ''namespace'', ''name''] @ metadataNames vmi,
       memoryAvailableLabels := [''node'', ''namespace'', ''name''] @ metadataNames vmi,
       swapTrafficLabels := [''node'', ''namespace'', ''name'', ''type''] @ metadataNames vmi,
       memoryResidentDesc :=
         newMemoryResidentDesc ([''node'', ''namespace'', ''name''] @ metadataNames vmi),
       memoryAvailableDesc :=
         newMemoryAvailableDesc ([''node'', ''namespace'', ''name''] @ metadataNames vmi),
       swapTrafficDesc :=
         newSwapTrafficDesc ([''node'', ''namespace'', ''name'', ''type''] @ metadataNames vmi)\<rparr>"

definition vcpuGlobals :: "VirtualMachineInstance \<Rightarrow> Globals \<Rightarrow> Globals" where
  "vcpuGlobals vmi g =
     g\<lparr>vcpuUsageLabels := [''node'', ''namespace'', ''name'', ''id'', ''state''] @ metadataNames vmi,
       vcpuUsageDesc :=
         newVcpuUsageDesc ([''node'', ''namespace'', ''name'', ''id'', ''state''] @ metadataNames vmi)\<rparr>"

definition blockGlobals :: "VirtualMachineInstance \<Rightarrow> Globals \<Rightarrow> Globals" where
  "blockGlobals vmi g =
     g\<lparr>storageIopsLabels := [''node'', ''namespace'', ''name'', ''drive'', ''type''] @ metadataNames vmi,
       storageTrafficLabels := [''node'', ''namespace'', ''name'', ''drive'', ''type''] @ metadataNames vmi,
       storageTimesLabels := [''node'', ''namespace'', ''name'', ''drive'', ''type''] @ metadataNames vmi,
       storageIopsDesc :=
         newStorageIopsDesc ([''node'', ''namespace'', ''name'', ''drive'', ''type''] @ metadataNames vmi),
       storageTrafficDesc :=
         newStorageTrafficDesc ([''node'', ''namespace'', ''name'', ''drive'', ''type''] @ metadataNames vmi),
       storageTimesDesc :=
         newStorageTimesDesc ([''node'', ''namespace'', ''name'', ''drive'', ''type''] @ metadataNames vmi)\<rparr>"

definition networkGlobals :: "VirtualMachineInstance \<Rightarrow> Globals \<Rightarrow> Globals" where
  "networkGlobals vmi g =
     g\<lparr>networkTrafficBytesLabels :=
         [''node'', ''namespace'', ''name'', ''interface'', ''type''] @ metadataNames vmi,
       networkTrafficPktsLabels :=
         [''node'', ''namespace'', ''name'', ''interface'', ''type''] @ metadataNames vmi,
       networkErrorsLabels :=
         [''node'', ''namespace'', ''name'', ''interface'', ''type''] @ metadataNames vmi,
       networkTrafficBytesDesc :=
         newNetworkTrafficBytesDesc
           ([''node'', ''namespace'', ''name'', ''interface'', ''type''] @ metadataNames vmi),
       networkTrafficPktsDesc :=
         newNetworkTrafficPktsDesc
           ([''node'', ''namespace'', ''name'', ''interface'', ''type''] @ metadataNames vmi),
       networkErrorsDesc :=
         newNetworkErrorsDesc
           ([''node'', ''namespace'', ''name'', ''interface'', ''type''] @ metadataNames vmi)\<rparr>"

text \<open>The label values that each family passes to \<open>NewConstMetric\<close>.\<close>

definition baseValues :: "VirtualMachineInstance \<Rightarrow> string list \<Rightarrow> string list" where
  "baseValues vmi extra = [NodeName vmi, Namespace vmi, Name vmi] @ extra @ metadataValues vmi"

definition iopsWriteValues :: "VirtualMachineInstance \<Rightarrow> string \<Rightarrow> string list" where
  "iopsWriteValues vmi drive =
     (if metadataValues vmi = [] then [NodeName vmi, Namespace vmi, Name vmi, drive, ''write'']
      else baseValues vmi [drive, ''read''] @ [last (metadataValues vmi)])"

text \<open>The results of the \<open>NewConstMetric\<close> calls of each operation, in the order of the calls.\<close>

definition memoryAttempts ::
  "VirtualMachineInstance \<Rightarrow> DomainStats \<Rightarrow> (MetricError + Metric) list" where
  "memoryAttempts vmi vmStats =
     (if RSSSet (Memory vmStats)
      then [NewConstMetric (newMemoryResidentDesc ([''node'', ''namespace'', ''name''] @ metadataNames vmi))
              GaugeValue (float64 (unat (RSS (Memory vmStats))) * 1024) (baseValues vmi [])]
      else [])
     @ (if AvailableSet (Memory vmStats)
        then [NewConstMetric (newMemoryAvailableDesc ([''node'', ''namespace'', ''name''] @ metadataNames vmi))
                GaugeValue (float64 (unat (Available (Memory vmStats))) * 1024) (baseValues vmi [])]
        else [])
     @ (if SwapInSet (Memory vmStats)
        then [NewConstMetric
                (newSwapTrafficDesc ([''node'', ''namespace'', ''name'', ''type''] @ metadataNames vmi))
                GaugeValue (float64 (unat (SwapIn (Memory vmStats))) * 1024) (baseValues vmi [''in''])]
        else [])
     @ (if SwapOutSet (Memory vmStats)
        then [NewConstMetric
                (newSwapTrafficDesc ([''node'', ''namespace'', ''name'', ''type''] @ metadataNames vmi))
                GaugeValue (float64 (unat (SwapOut (Memory vmStats))) * 1024) (baseValues vmi [''out''])]
        else [])"

definition vcpuAttempts ::
  "VirtualMachineInstance \<Rightarrow> nat \<Rightarrow> DomainStatsVcpu \<Rightarrow> (MetricError + Metric) list" where
  "vcpuAttempts vmi vcpuId vcpu =
     (if StateSet vcpu \<and> TimeSet vcpu
      then [NewConstMetric
              (newVcpuUsageDesc ([''node'', ''namespace'', ''name'', ''id'', ''state''] @ metadataNames vmi))
              GaugeValue (float64 (unat (Time vcpu div 1000000000)))
              (baseValues vmi [Sprintf_v (int vcpuId), Sprintf_v (State vcpu)])]
      else [])"

definition blockAttempts ::
  "VirtualMachineInstance \<Rightarrow> DomainStatsBlock \<Rightarrow> (MetricError + Metric) list" where
  "blockAttempts vmi block =
     (if \<not> blockNameSet block then []
      else
        (if RdReqsSet block
         then [NewConstMetric
                 (newStorageIopsDesc ([''node'', ''namespace'', ''name'', ''drive'', ''type''] @ metadataNames vmi))
                 CounterValue (float64 (unat (RdReqs block))) (baseValues vmi [blockName block, ''read''])]
         else [])
        @ (if WrReqsSet block
           then [NewConstMetric
                   (newStorageIopsDesc ([''node'', ''namespace'', ''name'', ''drive'', ''type''] @ metadataNames vmi))
                   CounterValue (float64 (unat (WrReqs block))) (iopsWriteValues vmi (blockName block))]
           else [])
        @ (if RdBytesSet block
           then [NewConstMetric
                   (newStorageTrafficDesc ([''node'', ''namespace'', ''name'', ''drive'', ''type''] @ metadataNames vmi))
                   CounterValue (float64 (unat (RdBytes block))) (baseValues vmi [blockName block, ''read''])]
           else [])
        @ (if WrBytesSet block
           then [NewConstMetric
                   (newStorageTrafficDesc ([''node'', ''namespace'', ''name'', ''drive'', ''type''] @ metadataNames vmi))
                   CounterValue (float64 (unat (WrBytes block))) (baseValues vmi [blockName block, ''write''])]
           else [])
        @ (if RdTimesSet block
           then [NewConstMetric
                   (newStorageTimesDesc ([''node'', ''namespace'', ''name'', ''drive'', ''type''] @ metadataNames vmi))
                   CounterValue (float64 (unat (RdTimes block))) (baseValues vmi [blockName block, ''read''])]
           else [])
        @ (if WrTimesSet block
           then [NewConstMetric
                   (newStorageTimesDesc ([''node'', ''namespace'', ''name'', ''drive'', ''type''] @ metadataNames vmi))
                   CounterValue (float64 (unat (WrTimes block))) (baseValues vmi [blockName block, ''write''])]
           else []))"

definition networkAttempts ::
  "VirtualMachineInstance \<Rightarrow> DomainStatsNet \<Rightarrow> (MetricError + Metric) list" where
  "networkAttempts vmi net =
     (if \<not> netNameSet net then []
      else
        (if RxBytesSet net
         then [NewConstMetric
                 (newNetworkTrafficBytesDesc
                    ([''node'', ''namespace'', ''name'', ''interface'', ''type''] @ metadataNames vmi))
                 CounterValue (float64 (unat (RxBytes net))) (baseValues vmi [netName net, ''rx''])]
         else [])
        @ (if RxPktsSet net
           then [NewConstMetric
                   (newNetworkTrafficPktsDesc
                      ([''node'', ''namespace'', ''name'', ''interface'', ''type''] @ metadataNames vmi))
                   CounterValue (float64 (unat (RxPkts net))) (baseValues vmi [netName net, ''rx''])]
           else [])
        @ (if RxErrsSet net
           then [NewConstMetric
                   (newNetworkErrorsDesc
                      ([''node'', ''namespace'', ''name'', ''interface'', ''type''] @ metadataNames vmi))
                   CounterValue (float64 (unat (RxErrs net))) (baseValues vmi [netName net, ''rx''])]
           else [])
        @ (if TxBytesSet net
           then [NewConstMetric
                   (newNetworkTrafficBytesDesc
                      ([''node'', ''namespace'', ''name'', ''interface'', ''type''] @ metadataNames vmi))
                   CounterValue (float64 (unat (TxBytes net))) (baseValues vmi [netName net, ''tx''])]
           else [])
        @ (if TxPktsSet net
           then [NewConstMetric
                   (newNetworkTrafficPktsDesc
                      ([''node'', ''namespace'', ''name'', ''interface'', ''type''] @ metadataNames vmi))
                   CounterValue (float64 (unat (TxPkts net))) (baseValues vmi [netName net, ''tx''])]
           else [])
        @ (if TxErrsSet net
           then [NewConstMetric
                   (newNetworkErrorsDesc
                      ([''node'', ''namespace'', ''name'', ''interface'', ''type''] @ metadataNames vmi))
                   CounterValue (float64 (unat (TxErrs net))) (baseValues vmi [netName net, ''tx''])]
           else []))"

text \<open>\<open>offers f rs\<close>: the operation \<open>f\<close> offers \<open>rs\<close> to the channel, whatever the state is.
  \<open>accepted rs\<close> are the metrics among the results \<open>rs\<close>.\<close>

definition offers :: "(World \<Rightarrow> outcome \<times> World) \<Rightarrow> (MetricError + Metric) list \<Rightarrow> bool" where
  "offers f rs \<longleftrightarrow>
     (\<forall>w. fst (f w) = fst (offer rs (ch w)) \<and> ch (snd (f w)) = snd (offer rs (ch w)))"

fun accepted :: "(MetricError + Metric) list \<Rightarrow> Metric list" where
  "accepted [] = []"
| "accepted (Inl e # rs) = accepted rs"
| "accepted (Inr mv # rs) = mv # accepted rs"

definition reportAttempts ::
  "VirtualMachineInstance \<Rightarrow> DomainStats \<Rightarrow> (MetricError + Metric) list" where
  "reportAttempts vmi vmStats =
     memoryAttempts vmi vmStats
     @ concat (map (\<lambda>(i, vcpu). vcpuAttempts vmi i vcpu) (List.enumerate 0 (Vcpu vmStats)))
     @ concat (map (blockAttempts vmi) (Block vmStats))
     @ concat (map (networkAttempts vmi) (Net vmStats))"


text \<open>The dynamic label names in the words of the specification: every metadata label
  key with the prefix \<open>vmi_k8s_label_\<close>, every annotation key with the prefix
  \<open>vmi_k8s_annotation_\<close>, each key sanitised, one name per key.\<close>

definition specLabelNames :: "VirtualMachineInstance \<Rightarrow> string list" where
  "specLabelNames vmi =
     map (\<lambda>kv. ''vmi_k8s_label_'' @ sanitize (fst kv)) (Labels vmi)
     @ map (\<lambda>kv. ''vmi_k8s_annotation_'' @ sanitize (fst kv)) (Annotations vmi)"

text \<open>The number of VMIs of a list in a lower-cased phase, and the gauge sample for it.\<close>

definition phaseCount ::
  "(string \<Rightarrow> string) \<Rightarrow> string \<Rightarrow> VirtualMachineInstance list \<Rightarrow> nat" where
  "phaseCount toLower p vmis = length (filter (\<lambda>vmi. toLower (Phase vmi) = p) vmis)"

definition phaseSample ::
  "(string \<Rightarrow> string) \<Rightarrow> string \<Rightarrow> VirtualMachineInstance list \<Rightarrow> string \<Rightarrow> Metric" where
  "phaseSample toLower node vmis p =
     \<lparr>desc = vmiCountDesc, valType = GaugeValue, val = real (phaseCount toLower p vmis),
      labelValues = [node, p]\<rparr>"

definition versionSample :: "VersionInfo \<Rightarrow> Metric" where
  "versionSample verinfo =
     \<lparr>desc = versionDesc, valType = GaugeValue, val = 1,
      labelValues = [GoVersion verinfo, GitVersion verinfo]\<rparr>"

subsection \<open>Concrete inputs\<close>

text \<open>A VMI with one metadata label and one annotation, a statistics record with the
  resident set size and one vCPU, and a state with an open, empty channel.\<close>

definition exVMI :: VirtualMachineInstance where
  "exVMI = \<lparr>Namespace = ''default'', Name = ''vm1'',
            Labels = [(''kubernetes.io/foo'', ''bar'')], Annotations = [(''team-id'', ''t1'')],
            NodeName = ''node-a'', Phase = ''Running''\<rparr>"

definition exMemory :: DomainStatsMemory where
  "exMemory = \<lparr>AvailableSet = False, Available = 0, RSSSet = True, RSS = 2048,
               SwapInSet = False, SwapIn = 0, SwapOutSet = False, SwapOut = 0\<rparr>"

definition exVcpu :: DomainStatsVcpu where
  "exVcpu = \<lparr>StateSet = True, State = 1, TimeSet = True, Time = 3000000000\<rparr>"

definition exStats :: DomainStats where
  "exStats = \<lparr>statsName = ''default_vm1'', Memory = exMemory, Vcpu = [exVcpu], Net = [], Block = []\<rparr>"

definition exWorld :: World where
  "exWorld = \<lparr>vars = initGlobals, ch = \<lparr>sent = [], remaining = None\<rparr>, logs = []\<rparr>"

definition exNames :: "string list" where
  "exNames = [''vmi_k8s_label_kubernetes_io_foo'', ''vmi_k8s_annotation_team_id'']"

definition exResident :: Metric where
  "exResident =
     \<lparr>desc = newMemoryResidentDesc ([''node'', ''namespace'', ''name''] @ exNames),
      valType = GaugeValue, val = 2097152,
      labelValues = [''node-a'', ''default'', ''vm1'', ''bar'', ''t1'']\<rparr>"

definition exVcpuSeconds :: Metric where
  "exVcpuSeconds =
     \<lparr>desc = newVcpuUsageDesc ([''node'', ''namespace'', ''name'', ''id'', ''state''] @ exNames),
      valType = GaugeValue, val = 3,
      labelValues = [''node-a'', ''default'', ''vm1'', ''0'', ''1'', ''bar'', ''t1'']\<rparr>"

text \<open>A command client that answers with \<open>exStats\<close> five seconds after the scrape began,
  and one that answers after thirteen seconds.\<close>

definition exClient :: CmdClient where
  "exClient = \<lparr>NewClient = (\<lambda>socketFile. None),
               GetDomainStats = (\<lambda>socketFile. (exStats, True, None)),
               ts = 0, now = 5 * Second\<rparr>"

definition exSlowClient :: CmdClient where
  "exSlowClient = exClient\<lparr>now := 13 * Second\<rparr>"

text \<open>A block device with a name and a count of write requests, and a VMI without
  metadata.\<close>

definition exBlock :: DomainStatsBlock where
  "exBlock = \<lparr>blockNameSet = True, blockName = ''vda'',
              RdReqsSet = False, RdReqs = 0, RdBytesSet = False, RdBytes = 0,
              RdTimesSet = False, RdTimes = 0, WrReqsSet = True, WrReqs = 7,
              WrBytesSet = False, WrBytes = 0, WrTimesSet = False, WrTimes = 0\<rparr>"

definition exBlockStats :: DomainStats where
  "exBlockStats = exStats\<lparr>Vcpu := [], Block := [exBlock]\<rparr>"

definition exPlainVMI :: VirtualMachineInstance where
  "exPlainVMI = exVMI\<lparr>Labels := [], Annotations := []\<rparr>"

definition exWriteIops :: Metric where
  "exWriteIops =
     \<lparr>desc = newStorageIopsDesc [''node'', ''namespace'', ''name'', ''drive'', ''type''],
      valType = CounterValue, val = 7,
      labelValues = [''node-a'', ''default'', ''vm1'', ''vda'', ''write'']\<rparr>"

text \<open>The lower-casing function of the concrete inputs: the ASCII letters \<open>A\<close> to \<open>Z\<close> move
  to \<open>a\<close> to \<open>z\<close> and every other byte stays, which is what \<open>strings.ToLower\<close> does on a
  string of ASCII bytes. The phases of the concrete inputs are such strings.\<close>

definition asciiToLower :: "string \<Rightarrow> string" where
  "asciiToLower s =
     map (\<lambda>c. if 65 \<le> (of_char c :: nat) \<and> (of_char c :: nat) \<le> 90
              then char_of ((of_char c :: nat) + 32) else c) s"

text \<open>Three VMIs on \<open>node-a\<close> in the phases \<open>Running\<close>, \<open>Running\<close> and \<open>Failed\<close>; collaborators
  whose directory lists them, whose resolver finds no socket, and whose scheduler
  delivers nothing; and collaborators whose directory fails or lists no VMI.\<close>

definition exVMIs :: "VirtualMachineInstance list" where
  "exVMIs = [exVMI, exVMI\<lparr>Name := ''vm2''\<rparr>, exVMI\<lparr>Name := ''vm3'', Phase := ''Failed''\<rparr>]"

definition exVersion :: VersionInfo where
  "exVersion = \<lparr>GoVersion = ''go1.13'', GitVersion = ''v0.26.0''\<rparr>"

definition exEnv :: Collaborators where
  "exEnv = \<lparr>version_Get = exVersion,
            VirtualMachinesOnNode = (\<lambda>node. Inr exVMIs),
            FindSocketOnHost = (\<lambda>vmi. Inl ''no socket''),
            concCollect = (\<lambda>socketToVMIs w. w),
            strings_ToLower = asciiToLower\<rparr>"

definition exFailingEnv :: Collaborators where
  "exFailingEnv = exEnv\<lparr>VirtualMachinesOnNode := (\<lambda>node. Inl ''connection refused'')\<rparr>"

definition exEmptyEnv :: Collaborators where
  "exEmptyEnv = exEnv\<lparr>VirtualMachinesOnNode := (\<lambda>node. Inr [])\<rparr>"

definition exCollector :: Collector where
  "exCollector = \<lparr>virtShareDir = ''/var/run/kubevirt'', nodeName = ''node-a''\<rparr>"

definition exVersionSample :: Metric where
  "exVersionSample =
     \<lparr>desc = versionDesc, valType = GaugeValue, val = 1, labelValues = [''go1.13'', ''v0.26.0'']\<rparr>"




section \<open>Properties\<close>

subsection \<open>Library functions\<close>

lemma bitLen_le: "n < 2 ^ k \<Longrightarrow> bitLen n \<le> k"
proof (induction k arbitrary: n)
  case 0
  then show ?case by (simp add: bitLen.simps)
next
  case (Suc k)
  show ?case
  proof (cases "n = 0")
    case True
    then show ?thesis by (simp add: bitLen.simps)
  next
    case False
    from Suc.prems have "n div 2 < 2 ^ k" by simp
    then have "bitLen (n div 2) \<le> k" by (rule Suc.IH)
    with False show ?thesis by (subst bitLen.simps) simp
  qed
qed

lemma float64_exact: "n < 2 ^ 53 \<Longrightarrow> float64 n = real n"
proof -
  assume "n < 2 ^ 53"
  then have "bitLen n - 53 = 0" using bitLen_le [of n 53] by simp
  then show ?thesis by (simp add: float64_def)
qed

lemma Replace_labelFormatter: "Replace labelFormatter s = sanitize s"
  by (induction s) (simp_all add: labelFormatter_def sanitize_def)

lemma metadataNames_spec: "metadataNames vmi = specLabelNames vmi"
  by (simp add: metadataNames_def specLabelNames_def Replace_labelFormatter labelPreffix_def
      annotationPreffix_def)

subsection \<open>The metadata loops\<close>

lemma fold_updateMemory_append:
  "fold (updateMemory_append p) kvs (g, l) =
     (g\<lparr>memoryResidentLabels := memoryResidentLabels g @ map (\<lambda>kv. p @ Replace labelFormatter (fst kv)) kvs,
        memoryAvailableLabels := memoryAvailableLabels g @ map (\<lambda>kv. p @ Replace labelFormatter (fst kv)) kvs,
        swapTrafficLabels := swapTrafficLabels g @ map (\<lambda>kv. p @ Replace labelFormatter (fst kv)) kvs\<rparr>,
      l\<lparr>memoryResidentLabelValues := memoryResidentLabelValues l @ map snd kvs,
        memoryAvailableLabelsValues := memoryAvailableLabelsValues l @ map snd kvs,
        swapTrafficInLabelsValues := swapTrafficInLabelsValues l @ map snd kvs,
        swapTrafficOutLabelsValues := swapTrafficOutLabelsValues l @ map snd kvs\<rparr>)"
  by (induction kvs arbitrary: g l) (simp_all add: updateMemory_append_def split_def)

lemma updateMemory_labels_eq:
  "updateMemory_labels vmi g =
     (memoryGlobals vmi g,
      \<lparr>memoryResidentLabelValues = baseValues vmi [],
       memoryAvailableLabelsValues = baseValues vmi [],
       swapTrafficInLabelsValues = baseValues vmi [''in''],
       swapTrafficOutLabelsValues = baseValues vmi [''out'']\<rparr>)"
  by (simp add: updateMemory_labels_def fold_updateMemory_append memoryGlobals_def
      metadataNames_def metadataValues_def baseValues_def)

lemma fold_updateVcpu_append:
  "fold (updateVcpu_append p) kvs (g, l) =
     (g\<lparr>vcpuUsageLabels := vcpuUsageLabels g @ map (\<lambda>kv. p @ Replace labelFormatter (fst kv)) kvs\<rparr>,
      l @ map snd kvs)"
  by (induction kvs arbitrary: g l) (simp_all add: updateVcpu_append_def split_def)

lemma updateVcpu_labels_eq:
  "updateVcpu_labels vmi i vcpu g =
     (vcpuGlobals vmi g, baseValues vmi [Sprintf_v (int i), Sprintf_v (State vcpu)])"
  by (simp add: updateVcpu_labels_def fold_updateVcpu_append vcpuGlobals_def
      metadataNames_def metadataValues_def baseValues_def)

lemma fold_updateBlock_append:
  "fold (updateBlock_append p) kvs (g, l) =
     (g\<lparr>storageIopsLabels := storageIopsLabels g @ map (\<lambda>kv. p @ Replace labelFormatter (fst kv)) kvs,
        storageTrafficLabels := storageTrafficLabels g @ map (\<lambda>kv. p @ Replace labelFormatter (fst kv)) kvs,
        storageTimesLabels := storageTimesLabels g @ map (\<lambda>kv. p @ Replace labelFormatter (fst kv)) kvs\<rparr>,
      l\<lparr>storageIopsReadLabelsValues := storageIopsReadLabelsValues l @ map snd kvs,
        storageIopsWriteLabelsValues :=
          (if kvs = [] then storageIopsWriteLabelsValues l
           else (storageIopsReadLabelsValues l @ map snd kvs) @ [snd (last kvs)]),
        storageTrafficReadLabelsValues := storageTrafficReadLabelsValues l @ map snd kvs,
        storageTrafficWriteLabelsValues := storageTrafficWriteLabelsValues l @ map snd kvs,
        storageTimesReadLabelsValues := storageTimesReadLabelsValues l @ map snd kvs,
        storageTimesWriteLabelsValues := storageTimesWriteLabelsValues l @ map snd kvs\<rparr>)"
  by (induction kvs arbitrary: g l) (simp_all add: updateBlock_append_def split_def)

lemma iopsWriteValues_eq:
  "(if Annotations vmi = []
    then (if Labels vmi = [] then [NodeName vmi, Namespace vmi, Name vmi, d, ''write'']
          else ([NodeName vmi, Namespace vmi, Name vmi, d, ''read''] @ map snd (Labels vmi))
               @ [snd (last (Labels vmi))])
    else (([NodeName vmi, Namespace vmi, Name vmi, d, ''read''] @ map snd (Labels vmi))
          @ map snd (Annotations vmi)) @ [snd (last (Annotations vmi))])
   = iopsWriteValues vmi d"
  by (simp add: iopsWriteValues_def metadataValues_def baseValues_def last_map last_append)

lemma updateBlock_labels_eq:
  "updateBlock_labels vmi block g =
     (blockGlobals vmi g,
      \<lparr>storageIopsReadLabelsValues = baseValues vmi [blockName block, ''read''],
       storageIopsWriteLabelsValues = iopsWriteValues vmi (blockName block),
       storageTrafficReadLabelsValues = baseValues vmi [blockName block, ''read''],
       storageTrafficWriteLabelsValues = baseValues vmi [blockName block, ''write''],
       storageTimesReadLabelsValues = baseValues vmi [blockName block, ''read''],
       storageTimesWriteLabelsValues = baseValues vmi [blockName block, ''write'']\<rparr>)"
  unfolding updateBlock_labels_def Let_def fold_updateBlock_append
  by (simp add: blockGlobals_def metadataNames_def iopsWriteValues_eq [symmetric])
     (simp add: metadataValues_def baseValues_def)

lemma fold_updateNetwork_append:
  "fold (updateNetwork_append p) kvs (g, l) =
     (g\<lparr>networkTrafficBytesLabels :=
          networkTrafficBytesLabels g @ map (\<lambda>kv. p @ Replace labelFormatter (fst kv)) kvs,
        networkTrafficPktsLabels :=
          networkTrafficPktsLabels g @ map (\<lambda>kv. p @ Replace labelFormatter (fst kv)) kvs,
        networkErrorsLabels := networkErrorsLabels g @ map (\<lambda>kv. p @ Replace labelFormatter (fst kv)) kvs\<rparr>,
      l\<lparr>networkTrafficBytesRxLabelsValues := networkTrafficBytesRxLabelsValues l @ map snd kvs,
        networkTrafficBytesTxLabelsValues := networkTrafficBytesTxLabelsValues l @ map snd kvs,
        networkTrafficPktsRxLabelsValues := networkTrafficPktsRxLabelsValues l @ map snd kvs,
        networkTrafficPktsTxLabelsValues := networkTrafficPktsTxLabelsValues l @ map snd kvs,
        networkErrorsRxLabelsValues := networkErrorsRxLabelsValues l @ map snd kvs,
        networkErrorsTxLabelsValues := networkErrorsTxLabelsValues l @ map snd kvs\<rparr>)"
  by (induction kvs arbitrary: g l) (simp_all add: updateNetwork_append_def split_def)

lemma updateNetwork_labels_eq:
  "updateNetwork_labels vmi net g =
     (networkGlobals vmi g,
      \<lparr>networkTrafficBytesRxLabelsValues = baseValues vmi [netName net, ''rx''],
       networkTrafficBytesTxLabelsValues = baseValues vmi [netName net, ''tx''],
       networkTrafficPktsRxLabelsValues = baseValues vmi [netName net, ''rx''],
       networkTrafficPktsTxLabelsValues = baseValues vmi [netName net, ''tx''],
       networkErrorsRxLabelsValues = baseValues vmi [netName net, ''rx''],
       networkErrorsTxLabelsValues = baseValues vmi [netName net, ''tx'']\<rparr>)"
  by (simp add: updateNetwork_labels_def fold_updateNetwork_append networkGlobals_def
      metadataNames_def metadataValues_def baseValues_def)

lemma offer_append:
  "offer (a @ b) c =
     (case offer a c of (Normal, c') \<Rightarrow> offer b c' | (Panicked, c') \<Rightarrow> (Panicked, c'))"
  by (induction a c rule: offer.induct) (auto split: prod.splits outcome.splits)

lemma accepted_append: "accepted (a @ b) = accepted a @ accepted b"
  by (induction a rule: accepted.induct) simp_all


lemma set_accepted: "set (accepted rs) = {m. Inr m \<in> set rs}"
  by (induction rs rule: accepted.induct) auto

lemma offer_eq:
  "offer rs c =
     (case remaining c of
        None \<Rightarrow> (Normal, c\<lparr>sent := sent c @ accepted rs\<rparr>)
      | Some k \<Rightarrow>
          if length (accepted rs) \<le> k
          then (Normal, \<lparr>sent = sent c @ accepted rs, remaining = Some (k - length (accepted rs))\<rparr>)
          else (Panicked, \<lparr>sent = sent c @ take k (accepted rs), remaining = Some 0\<rparr>))"
proof (induction rs c rule: offer.induct)
  case (1 c)
  then show ?case by (cases c) (simp split: option.splits)
next
  case (2 e rs c)
  then show ?case by (simp split: option.splits)
next
  case (3 mv rs c)
  show ?case
  proof (cases "remaining c")
    case None
    then show ?thesis using "3" by (simp add: chanSend_def split: option.splits)
  next
    case (Some k)
    show ?thesis
    proof (cases k)
      case 0
      then show ?thesis using Some by (cases c) (simp add: chanSend_def)
    next
      case (Suc j)
      then show ?thesis using Some "3" by (simp add: chanSend_def split: option.splits)
    qed
  qed
qed

lemma offer_open:
  "remaining c = None \<Longrightarrow> offer rs c = (Normal, c\<lparr>sent := sent c @ accepted rs\<rparr>)"
  by (simp add: offer_eq)

lemma offer_sent: "\<exists>k. sent (snd (offer rs c)) = sent c @ take k (accepted rs)"
proof (cases "remaining c")
  case None
  then have "sent (snd (offer rs c)) = sent c @ take (length (accepted rs)) (accepted rs)"
    by (simp add: offer_eq)
  then show ?thesis by blast
next
  case (Some k)
  then have "sent (snd (offer rs c)) = sent c @ take k (accepted rs)"
    by (simp add: offer_eq)
  then show ?thesis by blast
qed

lemma offer_Panicked: "fst (offer rs c) = Panicked \<Longrightarrow> remaining (snd (offer rs c)) = Some 0"
  by (auto simp: offer_eq split: option.splits if_splits)

lemma delivers_skip: "delivers G skip []"
  by (simp add: delivers_def skip_def)

lemma delivers_pushConst: "delivers G (pushConst d t v vals) [NewConstMetric (d G) t v vals]"
  by (auto simp: delivers_def pushConst_def tryToPushMetric_def send_def logf_def
      split: sum.splits prod.splits outcome.splits)

lemma delivers_whenSet: "delivers G f rs \<Longrightarrow> delivers G (whenSet b f) (if b then rs else [])"
  by (simp add: whenSet_def delivers_skip)

lemma delivers_andThen:
  assumes "delivers G f a" and "delivers G g b"
  shows "delivers G (andThen f g) (a @ b)"
  unfolding delivers_def
proof (intro allI impI)
  fix w :: World assume w: "vars w = G"
  obtain r w' where fw: "f w = (r, w')" by (cases "f w")
  from assms(1) w fw have f: "vars w' = G" "r = fst (offer a (ch w))" "ch w' = snd (offer a (ch w))"
    by (auto simp: delivers_def)
  show "vars (snd (andThen f g w)) = G \<and> fst (andThen f g w) = fst (offer (a @ b) (ch w))
        \<and> ch (snd (andThen f g w)) = snd (offer (a @ b) (ch w))"
  proof (cases r)
    case Normal
    with f obtain c' where oa: "offer a (ch w) = (Normal, c')" "ch w' = c'"
      by (cases "offer a (ch w)") auto
    from assms(2) f(1) have "vars (snd (g w')) = G \<and> fst (g w') = fst (offer b (ch w'))
        \<and> ch (snd (g w')) = snd (offer b (ch w'))"
      by (simp add: delivers_def)
    with Normal fw oa show ?thesis by (simp add: andThen_def offer_append)
  next
    case Panicked
    with f obtain c' where oa: "offer a (ch w) = (Panicked, c')" "ch w' = c'"
      by (cases "offer a (ch w)") auto
    with Panicked fw f(1) show ?thesis by (simp add: andThen_def offer_append)
  qed
qed

lemma rebuilds_from_delivers:
  assumes "\<And>w. f w = body (w\<lparr>vars := U (vars w)\<rparr>)" and "\<And>g. delivers (U g) body rs"
  shows "rebuilds U f rs"
  unfolding rebuilds_def
proof
  fix w :: World
  from assms(2) [of "vars w"] have
    "vars (snd (body (w\<lparr>vars := U (vars w)\<rparr>))) = U (vars w)
     \<and> fst (body (w\<lparr>vars := U (vars w)\<rparr>)) = fst (offer rs (ch (w\<lparr>vars := U (vars w)\<rparr>)))
     \<and> ch (snd (body (w\<lparr>vars := U (vars w)\<rparr>))) = snd (offer rs (ch (w\<lparr>vars := U (vars w)\<rparr>)))"
    unfolding delivers_def by (drule_tac x = "w\<lparr>vars := U (vars w)\<rparr>" in spec) simp
  then show "vars (snd (f w)) = U (vars w) \<and> fst (f w) = fst (offer rs (ch w))
     \<and> ch (snd (f w)) = snd (offer rs (ch w))"
    by (simp add: assms(1))
qed

lemma rebuilds_offers: "rebuilds U f rs \<Longrightarrow> offers f rs"
  by (simp add: rebuilds_def offers_def)

lemma offers_andThen:
  assumes "offers f a" and "offers g b"
  shows "offers (andThen f g) (a @ b)"
  unfolding offers_def
proof
  fix w :: World
  obtain r w' where fw: "f w = (r, w')" by (cases "f w")
  from assms(1) have "fst (f w) = fst (offer a (ch w))" "ch (snd (f w)) = snd (offer a (ch w))"
    by (simp_all add: offers_def)
  with fw have f: "r = fst (offer a (ch w))" "ch w' = snd (offer a (ch w))"
    by simp_all
  from assms(2) have g: "fst (g w') = fst (offer b (ch w'))" "ch (snd (g w')) = snd (offer b (ch w'))"
    by (simp_all add: offers_def)
  show "fst (andThen f g w) = fst (offer (a @ b) (ch w))
        \<and> ch (snd (andThen f g w)) = snd (offer (a @ b) (ch w))"
  proof (cases r)
    case Normal
    with f obtain c' where "offer a (ch w) = (Normal, c')" "ch w' = c'"
      by (cases "offer a (ch w)") auto
    with Normal fw g show ?thesis by (simp add: andThen_def offer_append)
  next
    case Panicked
    with f obtain c' where "offer a (ch w) = (Panicked, c')" "ch w' = c'"
      by (cases "offer a (ch w)") auto
    with Panicked fw show ?thesis by (simp add: andThen_def offer_append)
  qed
qed

lemma forRange_rebuilds:
  assumes body: "\<And>i x. rebuilds U (body i x) (atts i x)" and idem: "\<And>g. U (U g) = U g"
  shows "vars (snd (forRange body i xs w)) = (if xs = [] then vars w else U (vars w))
     \<and> fst (forRange body i xs w)
         = fst (offer (concat (map (\<lambda>(j, x). atts j x) (List.enumerate i xs))) (ch w))
     \<and> ch (snd (forRange body i xs w))
         = snd (offer (concat (map (\<lambda>(j, x). atts j x) (List.enumerate i xs))) (ch w))"
proof (induction xs arbitrary: i w)
  case Nil
  show ?case by (simp add: enumerate_eq_zip)
next
  case (Cons x xs)
  obtain r w' where bw: "body i x w = (r, w')" by (cases "body i x w")
  from body [of i x] have "vars (snd (body i x w)) = U (vars w)"
    "fst (body i x w) = fst (offer (atts i x) (ch w))"
    "ch (snd (body i x w)) = snd (offer (atts i x) (ch w))"
    by (simp_all add: rebuilds_def)
  with bw have b: "vars w' = U (vars w)" "r = fst (offer (atts i x) (ch w))"
    "ch w' = snd (offer (atts i x) (ch w))"
    by simp_all
  show ?case
  proof (cases r)
    case Normal
    with b obtain c' where oa: "offer (atts i x) (ch w) = (Normal, c')" "ch w' = c'"
      by (cases "offer (atts i x) (ch w)") auto
    from Cons.IH [of "Suc i" w'] Normal bw oa b(1) show ?thesis
      by (simp add: offer_append idem)
  next
    case Panicked
    with b obtain c' where oa: "offer (atts i x) (ch w) = (Panicked, c')" "ch w' = c'"
      by (cases "offer (atts i x) (ch w)") auto
    with Panicked bw b(1) show ?thesis by (simp add: offer_append)
  qed
qed

lemma delivers_pushConst_eq:
  "d G = D \<Longrightarrow> delivers G (pushConst d t v vals) [NewConstMetric D t v vals]"
  using delivers_pushConst [of G d t v vals] by simp

lemma rebuilds_vars_update:
  assumes "\<And>g. delivers (U g) body rs"
  shows "rebuilds U (\<lambda>w. body (w\<lparr>vars := U (vars w)\<rparr>)) rs"
  by (rule rebuilds_from_delivers [where body = body]) (simp_all add: assms)

lemma updateMemory_rebuilds:
  "rebuilds (memoryGlobals vmi) (updateMemory vmi vmStats) (memoryAttempts vmi vmStats)"
proof -
  have "updateMemory vmi vmStats =
     (\<lambda>w. andThen
          (whenSet (RSSSet (Memory vmStats))
             (pushConst memoryResidentDesc GaugeValue
                (float64 (unat (RSS (Memory vmStats))) * 1024) (baseValues vmi [])))
          (andThen
             (whenSet (AvailableSet (Memory vmStats))
                (pushConst memoryAvailableDesc GaugeValue
                   (float64 (unat (Available (Memory vmStats))) * 1024) (baseValues vmi [])))
             (andThen
                (whenSet (SwapInSet (Memory vmStats))
                   (pushConst swapTrafficDesc GaugeValue
                      (float64 (unat (SwapIn (Memory vmStats))) * 1024) (baseValues vmi [''in''])))
                (whenSet (SwapOutSet (Memory vmStats))
                   (pushConst swapTrafficDesc GaugeValue
                      (float64 (unat (SwapOut (Memory vmStats))) * 1024) (baseValues vmi [''out''])))))
          (w\<lparr>vars := memoryGlobals vmi (vars w)\<rparr>))"
    by (rule ext) (simp add: updateMemory_def updateMemory_labels_eq)
  moreover have "rebuilds (memoryGlobals vmi) \<dots> (memoryAttempts vmi vmStats)"
    unfolding memoryAttempts_def
    by (intro rebuilds_vars_update delivers_andThen delivers_whenSet delivers_pushConst_eq)
       (simp_all add: memoryGlobals_def)
  ultimately show ?thesis by simp
qed

lemma updateVcpu_body_rebuilds:
  "rebuilds (vcpuGlobals vmi) (updateVcpu_body vmi i vcpu) (vcpuAttempts vmi i vcpu)"
proof (cases "StateSet vcpu \<and> TimeSet vcpu")
  case True
  then have "updateVcpu_body vmi i vcpu =
     (\<lambda>w. pushConst vcpuUsageDesc GaugeValue (float64 (unat (Time vcpu div 1000000000)))
             (baseValues vmi [Sprintf_v (int i), Sprintf_v (State vcpu)])
             (w\<lparr>vars := vcpuGlobals vmi (vars w)\<rparr>))"
    by (intro ext) (simp add: updateVcpu_body_def updateVcpu_labels_eq)
  moreover have "rebuilds (vcpuGlobals vmi) \<dots> (vcpuAttempts vmi i vcpu)"
    unfolding vcpuAttempts_def if_P [OF True]
    by (intro rebuilds_vars_update delivers_pushConst_eq) (simp add: vcpuGlobals_def)
  ultimately show ?thesis by simp
next
  case False
  then show ?thesis
    by (auto simp: rebuilds_def updateVcpu_body_def updateVcpu_labels_eq vcpuAttempts_def logf_def)
qed

lemma updateBlock_body_rebuilds:
  "rebuilds (blockGlobals vmi) (updateBlock_body vmi i block) (blockAttempts vmi block)"
proof (cases "blockNameSet block")
  case True
  then have "updateBlock_body vmi i block =
     (\<lambda>w. andThen
            (whenSet (RdReqsSet block)
               (pushConst storageIopsDesc CounterValue
                  (float64 (unat (RdReqs block))) (baseValues vmi [blockName block, ''read''])))
         (andThen
            (whenSet (WrReqsSet block)
               (pushConst storageIopsDesc CounterValue
                  (float64 (unat (WrReqs block))) (iopsWriteValues vmi (blockName block))))
         (andThen
            (whenSet (RdBytesSet block)
               (pushConst storageTrafficDesc CounterValue
                  (float64 (unat (RdBytes block))) (baseValues vmi [blockName block, ''read''])))
         (andThen
            (whenSet (WrBytesSet block)
               (pushConst storageTrafficDesc CounterValue
                  (float64 (unat (WrBytes block))) (baseValues vmi [blockName block, ''write''])))
         (andThen
            (whenSet (RdTimesSet block)
               (pushConst storageTimesDesc CounterValue
                  (float64 (unat (RdTimes block))) (baseValues vmi [blockName block, ''read''])))
            (whenSet (WrTimesSet block)
               (pushConst storageTimesDesc CounterValue
                  (float64 (unat (WrTimes block))) (baseValues vmi [blockName block, ''write''])))))))
            (w\<lparr>vars := blockGlobals vmi (vars w)\<rparr>))"
    by (intro ext) (simp add: updateBlock_body_def updateBlock_labels_eq)
  moreover have "rebuilds (blockGlobals vmi) \<dots> (blockAttempts vmi block)"
    using True unfolding blockAttempts_def
    by (simp only: not_True_eq_False if_False)
       (intro rebuilds_vars_update delivers_andThen delivers_whenSet delivers_pushConst_eq,
        simp_all add: blockGlobals_def)
  ultimately show ?thesis by simp
next
  case False
  then show ?thesis
    by (auto simp: rebuilds_def updateBlock_body_def updateBlock_labels_eq blockAttempts_def logf_def)
qed

lemma updateNetwork_body_rebuilds:
  "rebuilds (networkGlobals vmi) (updateNetwork_body vmi i net) (networkAttempts vmi net)"
proof (cases "netNameSet net")
  case True
  then have "updateNetwork_body vmi i net =
     (\<lambda>w. andThen
            (whenSet (RxBytesSet net)
               (pushConst networkTrafficBytesDesc CounterValue
                  (float64 (unat (RxBytes net))) (baseValues vmi [netName net, ''rx''])))
         (andThen
            (whenSet (RxPktsSet net)
               (pushConst networkTrafficPktsDesc CounterValue
                  (float64 (unat (RxPkts net))) (baseValues vmi [netName net, ''rx''])))
         (andThen
            (whenSet (RxErrsSet net)
               (pushConst networkErrorsDesc CounterValue
                  (float64 (unat (RxErrs net))) (baseValues vmi [netName net, ''rx''])))
         (andThen
            (whenSet (TxBytesSet net)
               (pushConst networkTrafficBytesDesc CounterValue
                  (float64 (unat (TxBytes net))) (baseValues vmi [netName net, ''tx''])))
         (andThen
            (whenSet (TxPktsSet net)
               (pushConst networkTrafficPktsDesc CounterValue
                  (float64 (unat (TxPkts net))) (baseValues vmi [netName net, ''tx''])))
            (whenSet (TxErrsSet net)
               (pushConst networkErrorsDesc CounterValue
                  (float64 (unat (TxErrs net))) (baseValues vmi [netName net, ''tx''])))))))
            (w\<lparr>vars := networkGlobals vmi (vars w)\<rparr>))"
    by (intro ext) (simp add: updateNetwork_body_def updateNetwork_labels_eq)
  moreover have "rebuilds (networkGlobals vmi) \<dots> (networkAttempts vmi net)"
    using True unfolding networkAttempts_def
    by (simp only: not_True_eq_False if_False)
       (intro rebuilds_vars_update delivers_andThen delivers_whenSet delivers_pushConst_eq,
        simp_all add: networkGlobals_def)
  ultimately show ?thesis by simp
next
  case False
  then show ?thesis
    by (auto simp: rebuilds_def updateNetwork_body_def updateNetwork_labels_eq networkAttempts_def)
qed

subsection \<open>The loops over the statistics and the sequence of Report\<close>

lemma map_enumerate_ignore: "map (\<lambda>(j, x). f x) (List.enumerate i xs) = map f xs"
  by (induction xs arbitrary: i) simp_all

lemma updateVcpu_eq:
  "vars (snd (updateVcpu vmi vmStats w))
     = (if Vcpu vmStats = [] then vars w else vcpuGlobals vmi (vars w))
   \<and> fst (updateVcpu vmi vmStats w)
     = fst (offer (concat (map (\<lambda>(i, vcpu). vcpuAttempts vmi i vcpu)
                              (List.enumerate 0 (Vcpu vmStats)))) (ch w))
   \<and> ch (snd (updateVcpu vmi vmStats w))
     = snd (offer (concat (map (\<lambda>(i, vcpu). vcpuAttempts vmi i vcpu)
                              (List.enumerate 0 (Vcpu vmStats)))) (ch w))"
  unfolding updateVcpu_def
  by (rule forRange_rebuilds [where U = "vcpuGlobals vmi"])
     (simp_all add: updateVcpu_body_rebuilds, simp add: vcpuGlobals_def)

lemma updateBlock_eq:
  "vars (snd (updateBlock vmi vmStats w))
     = (if Block vmStats = [] then vars w else blockGlobals vmi (vars w))
   \<and> fst (updateBlock vmi vmStats w)
     = fst (offer (concat (map (blockAttempts vmi) (Block vmStats))) (ch w))
   \<and> ch (snd (updateBlock vmi vmStats w))
     = snd (offer (concat (map (blockAttempts vmi) (Block vmStats))) (ch w))"
  unfolding updateBlock_def
  using forRange_rebuilds [where U = "blockGlobals vmi" and body = "updateBlock_body vmi"
      and atts = "\<lambda>i. blockAttempts vmi" and i = 0 and xs = "Block vmStats" and w = w]
  by (simp add: updateBlock_body_rebuilds map_enumerate_ignore blockGlobals_def)

lemma updateNetwork_eq:
  "vars (snd (updateNetwork vmi vmStats w))
     = (if Net vmStats = [] then vars w else networkGlobals vmi (vars w))
   \<and> fst (updateNetwork vmi vmStats w)
     = fst (offer (concat (map (networkAttempts vmi) (Net vmStats))) (ch w))
   \<and> ch (snd (updateNetwork vmi vmStats w))
     = snd (offer (concat (map (networkAttempts vmi) (Net vmStats))) (ch w))"
  unfolding updateNetwork_def
  using forRange_rebuilds [where U = "networkGlobals vmi" and body = "updateNetwork_body vmi"
      and atts = "\<lambda>i. networkAttempts vmi" and i = 0 and xs = "Net vmStats" and w = w]
  by (simp add: updateNetwork_body_rebuilds map_enumerate_ignore networkGlobals_def)

lemma updateMemory_eq:
  "vars (snd (updateMemory vmi vmStats w)) = memoryGlobals vmi (vars w)
   \<and> fst (updateMemory vmi vmStats w) = fst (offer (memoryAttempts vmi vmStats) (ch w))
   \<and> ch (snd (updateMemory vmi vmStats w)) = snd (offer (memoryAttempts vmi vmStats) (ch w))"
  using updateMemory_rebuilds [of vmi vmStats] by (simp add: rebuilds_def)

lemma Report_updates_offers: "offers (Report_updates vmi vmStats) (reportAttempts vmi vmStats)"
  unfolding Report_updates_def reportAttempts_def
  by (intro offers_andThen) (simp_all add: offers_def updateMemory_eq updateVcpu_eq updateBlock_eq
      updateNetwork_eq)

lemma Report_updates_eq:
  "fst (Report_updates vmi vmStats w) = fst (offer (reportAttempts vmi vmStats) (ch w))
   \<and> ch (snd (Report_updates vmi vmStats w)) = snd (offer (reportAttempts vmi vmStats) (ch w))"
  using Report_updates_offers [of vmi vmStats] by (simp add: offers_def)

lemma sent_offer:
  "sent (snd (offer rs c))
     = sent c @ (case remaining c of None \<Rightarrow> accepted rs | Some k \<Rightarrow> take k (accepted rs))"
  by (simp add: offer_eq split: option.splits)

lemma fst_offer_Panicked:
  "fst (offer rs c) = Panicked \<longleftrightarrow> (\<exists>k. remaining c = Some k \<and> k < length (accepted rs))"
  by (auto simp: offer_eq split: option.splits)

subsection \<open>The phase histogram\<close>

lemma fold_phases_map_of:
  "map_of (fold (\<lambda>vmi phasesMap.
             AList.update (toLower (Phase vmi))
               ((case map_of phasesMap (toLower (Phase vmi)) of None \<Rightarrow> 0 | Some c \<Rightarrow> c) + 1)
               phasesMap) vmis acc) p
   = (if map_of acc p = None \<and> phaseCount toLower p vmis = 0 then None
      else Some ((case map_of acc p of None \<Rightarrow> 0 | Some c \<Rightarrow> c) + (of_nat (phaseCount toLower p vmis) :: uint64)))"
proof (induction vmis arbitrary: acc)
  case Nil
  show ?case by (simp add: phaseCount_def split: option.splits)
next
  case (Cons vmi vmis)
  have pc: "phaseCount toLower p (vmi # vmis)
      = (if toLower (Phase vmi) = p then Suc (phaseCount toLower p vmis) else phaseCount toLower p vmis)"
    by (simp add: phaseCount_def)
  show ?case
    by (simp only: fold_simps Cons.IH pc update_conv' o_apply)
       (auto split: option.splits)
qed

lemma fold_phases_distinct:
  "distinct (map fst acc) \<Longrightarrow>
   distinct (map fst (fold (\<lambda>vmi phasesMap.
             AList.update (toLower (Phase vmi))
               ((case map_of phasesMap (toLower (Phase vmi)) of None \<Rightarrow> 0 | Some c \<Rightarrow> c) + 1)
               phasesMap) vmis acc))"
  by (induction vmis arbitrary: acc) (simp_all add: distinct_update)

lemma makeVMIsPhasesMap_distinct: "distinct (map fst (makeVMIsPhasesMap toLower vmis))"
  by (simp add: makeVMIsPhasesMap_def fold_phases_distinct)

lemma makeVMIsPhasesMap_map_of:
  "map_of (makeVMIsPhasesMap toLower vmis) p
     = (if phaseCount toLower p vmis = 0 then None else Some (of_nat (phaseCount toLower p vmis)))"
  by (simp add: makeVMIsPhasesMap_def fold_phases_map_of)

lemma phaseCount_pos: "0 < phaseCount toLower p vmis \<longleftrightarrow> p \<in> (\<lambda>vmi. toLower (Phase vmi)) ` set vmis"
  by (auto simp: phaseCount_def filter_empty_conv)

lemma phaseCount_le: "phaseCount toLower p vmis \<le> length vmis"
  by (simp add: phaseCount_def)

lemma makeVMIsPhasesMap_keys:
  "set (map fst (makeVMIsPhasesMap toLower vmis)) = (\<lambda>vmi. toLower (Phase vmi)) ` set vmis"
proof -
  have "p \<in> set (map fst (makeVMIsPhasesMap toLower vmis)) \<longleftrightarrow> p \<in> (\<lambda>vmi. toLower (Phase vmi)) ` set vmis"
    for p
  proof -
    have "p \<in> set (map fst (makeVMIsPhasesMap toLower vmis)) \<longleftrightarrow> map_of (makeVMIsPhasesMap toLower vmis) p \<noteq> None"
      by (simp add: map_of_eq_None_iff)
    also have "\<dots> \<longleftrightarrow> 0 < phaseCount toLower p vmis"
      by (simp add: makeVMIsPhasesMap_map_of)
    finally show ?thesis by (simp add: phaseCount_pos)
  qed
  then show ?thesis by blast
qed

lemma makeVMIsPhasesMap_entry:
  "(p, c) \<in> set (makeVMIsPhasesMap toLower vmis) \<Longrightarrow> c = of_nat (phaseCount toLower p vmis)"
proof -
  assume "(p, c) \<in> set (makeVMIsPhasesMap toLower vmis)"
  then have "map_of (makeVMIsPhasesMap toLower vmis) p = Some c"
    using makeVMIsPhasesMap_distinct [of toLower vmis] by simp
  then show ?thesis
    by (simp add: makeVMIsPhasesMap_map_of split: if_splits)
qed

lemma vmiCountDesc_ok: "descErr vmiCountDesc = None" "variableLabels vmiCountDesc = [''node'', ''phase'']"
  by (simp_all add: vmiCountDesc_def NewDesc_def IsValidMetricName_def checkLabelName_def
      isLetter_def isDigit_def inRange_def)

lemma versionDesc_ok:
  "descErr versionDesc = None" "variableLabels versionDesc = [''goversion'', ''kubeversion'']"
  by (simp_all add: versionDesc_def NewDesc_def IsValidMetricName_def checkLabelName_def
      isLetter_def isDigit_def inRange_def)

lemma updateVMIsPhase_body_rebuilds:
  "rebuilds (\<lambda>g. g) (updateVMIsPhase_body node i e)
     [NewConstMetric vmiCountDesc GaugeValue (float64 (unat (snd e))) [node, fst e]]"
  by (cases e)
     (auto simp: rebuilds_def updateVMIsPhase_body_def send_def split: sum.splits prod.splits
       outcome.splits)

lemma updateVMIsPhase_eq:
  "vars (snd (updateVMIsPhase toLower node vmis w)) = vars w
   \<and> fst (updateVMIsPhase toLower node vmis w)
       = fst (offer (map (\<lambda>e. NewConstMetric vmiCountDesc GaugeValue (float64 (unat (snd e)))
                              [node, fst e]) (makeVMIsPhasesMap toLower vmis)) (ch w))
   \<and> ch (snd (updateVMIsPhase toLower node vmis w))
       = snd (offer (map (\<lambda>e. NewConstMetric vmiCountDesc GaugeValue (float64 (unat (snd e)))
                              [node, fst e]) (makeVMIsPhasesMap toLower vmis)) (ch w))"
proof -
  have c: "concat (map (\<lambda>(j, e). [f e]) (List.enumerate i xs)) = map f xs" for f :: "'a \<Rightarrow> 'b" and i xs
    by (induction xs arbitrary: i) simp_all
  show ?thesis
    unfolding updateVMIsPhase_def
    using forRange_rebuilds [where U = "\<lambda>g. g" and body = "updateVMIsPhase_body node"
      and atts = "\<lambda>i e. [NewConstMetric vmiCountDesc GaugeValue (float64 (unat (snd e))) [node, fst e]]"
      and i = 0 and xs = "makeVMIsPhasesMap toLower vmis" and w = w]
    by (simp add: updateVMIsPhase_body_rebuilds c)
qed

lemma phase_samples_accepted:
  assumes node: "ValidString node"
    and phases: "\<forall>vmi\<in>set vmis. ValidString (toLower (Phase vmi))"
    and len: "length vmis < 2 ^ 53"
  shows "accepted (map (\<lambda>e. NewConstMetric vmiCountDesc GaugeValue (float64 (unat (snd e)))
                              [node, fst e]) (makeVMIsPhasesMap toLower vmis))
         = map (phaseSample toLower node vmis) (map fst (makeVMIsPhasesMap toLower vmis))"
proof -
  have one: "NewConstMetric vmiCountDesc GaugeValue (float64 (unat (snd e))) [node, fst e]
               = Inr (phaseSample toLower node vmis (fst e))"
    if e: "e \<in> set (makeVMIsPhasesMap toLower vmis)" for e
  proof -
    obtain p c where pc: "e = (p, c)" by (cases e)
    with e have c: "c = of_nat (phaseCount toLower p vmis)"
      by (simp add: makeVMIsPhasesMap_entry)
    have "p \<in> set (map fst (makeVMIsPhasesMap toLower vmis))"
      using e pc by force
    then have "p \<in> (\<lambda>vmi. toLower (Phase vmi)) ` set vmis"
      by (simp only: makeVMIsPhasesMap_keys)
    with phases have vp: "ValidString p" by auto
    have small: "phaseCount toLower p vmis < 2 ^ 53"
      using phaseCount_le [of toLower p vmis] len by simp
    then have "phaseCount toLower p vmis < 2 ^ 64"
      by (rule less_trans) simp
    then have "unat (of_nat (phaseCount toLower p vmis) :: uint64) = phaseCount toLower p vmis"
      by (simp add: unat_of_nat)
    with small c have "float64 (unat c) = real (phaseCount toLower p vmis)"
      by (simp add: float64_exact)
    then show ?thesis
      using node vp pc
      by (simp add: NewConstMetric_def vmiCountDesc_ok validateLabelValues_def phaseSample_def)
  qed
  have "accepted (map f xs) = map g xs" if "\<And>x. x \<in> set xs \<Longrightarrow> f x = Inr (g x)"
    for f :: "'a \<Rightarrow> MetricError + Metric" and g xs
    using that by (induction xs) simp_all
  from this [of "makeVMIsPhasesMap toLower vmis"
      "\<lambda>e. NewConstMetric vmiCountDesc GaugeValue (float64 (unat (snd e))) [node, fst e]"
      "\<lambda>e. phaseSample toLower node vmis (fst e)"] one
  show ?thesis by (simp add: comp_def)
qed

lemma phase_samples_sent:
  assumes "remaining (ch w) = None" and "ValidString node"
    and "\<forall>vmi\<in>set vmis. ValidString (toLower (Phase vmi))" and "length vmis < 2 ^ 53"
  shows "fst (updateVMIsPhase toLower node vmis w) = Normal"
    and "sent (ch (snd (updateVMIsPhase toLower node vmis w)))
           = sent (ch w) @ map (phaseSample toLower node vmis) (map fst (makeVMIsPhasesMap toLower vmis))"
  using assms(1) phase_samples_accepted [OF assms(2-4)]
  by (simp_all add: updateVMIsPhase_eq offer_open)

lemma updateVersion_eq:
  assumes "remaining (ch w) \<noteq> Some 0" and "ValidString (GoVersion verinfo)"
    and "ValidString (GitVersion verinfo)"
  shows "fst (updateVersion verinfo w) = Normal"
    and "sent (ch (snd (updateVersion verinfo w))) = sent (ch w) @ [versionSample verinfo]"
    and "vars (snd (updateVersion verinfo w)) = vars w"
    and "logs (snd (updateVersion verinfo w)) = logs w"
proof -
  have n: "NewConstMetric versionDesc GaugeValue 1 [GoVersion verinfo, GitVersion verinfo]
             = Inr (versionSample verinfo)"
    using assms(2,3)
    by (simp add: NewConstMetric_def versionDesc_ok validateLabelValues_def versionSample_def)
  have s: "fst (chanSend mv (ch w)) = Normal \<and> sent (snd (chanSend mv (ch w))) = sent (ch w) @ [mv]"
    for mv
  proof (cases "remaining (ch w)")
    case None
    then show ?thesis by (simp add: chanSend_def)
  next
    case (Some k)
    with assms(1) obtain j where "k = Suc j" by (cases k) auto
    with Some show ?thesis by (simp add: chanSend_def)
  qed
  show "fst (updateVersion verinfo w) = Normal"
    using n s [of "versionSample verinfo"] by (simp add: updateVersion_def send_def split_def)
  show "sent (ch (snd (updateVersion verinfo w))) = sent (ch w) @ [versionSample verinfo]"
    using n s [of "versionSample verinfo"] by (simp add: updateVersion_def send_def split_def)
  show "vars (snd (updateVersion verinfo w)) = vars w"
    using n by (simp add: updateVersion_def send_def split_def)
  show "logs (snd (updateVersion verinfo w)) = logs w"
    using n by (simp add: updateVersion_def send_def split_def)
qed

lemma Collect_after_version:
  assumes "fst (updateVersion (version_Get env) w) = Normal"
  shows "Collector_Collect env co w
     = (case VirtualMachinesOnNode env (nodeName co) of
          Inl err \<Rightarrow>
            (Normal, logf None Error ''failed to list all VMIs in %s: %s''
                       (snd (updateVersion (version_Get env) w)))
        | Inr vmis \<Rightarrow>
            if vmis = []
            then (Normal, logf (Some 4) Info ''No VMIs detected'' (snd (updateVersion (version_Get env) w)))
            else updateVMIsPhase (strings_ToLower env) (nodeName co) vmis
                   (concCollect env
                      (newvmiSocketMapFromVMIs (FindSocketOnHost env) (virtShareDir co) vmis)
                      (snd (updateVersion (version_Get env) w))))"
proof -
  obtain r w1 where u: "updateVersion (version_Get env) w = (r, w1)"
    by (cases "updateVersion (version_Get env) w")
  with assms have "r = Normal" by simp
  with u show ?thesis
    by (simp add: Collector_Collect_def andThen_def split: sum.splits)
qed

lemma ex_lower: "asciiToLower ''Running'' = ''running''" "asciiToLower ''Failed'' = ''failed''"
  by code_simp+

lemma ex_valid:
  "ValidString ''node-a''" "ValidString ''running''" "ValidString ''failed''"
  "ValidString ''go1.13''" "ValidString ''v0.26.0''"
  by (simp_all add: ValidString.simps inRange_def)

lemma ex_hyps:
  "\<forall>vmi\<in>set exVMIs. ValidString (asciiToLower (Phase vmi))" "length exVMIs < 2 ^ 53"
  "remaining (ch exWorld) = None" "sent (ch exWorld) = []" "exVMIs \<noteq> []"
  by (simp_all add: exVMIs_def exVMI_def ex_lower ex_valid exWorld_def)

lemma ex_phases:
  "(\<lambda>vmi. asciiToLower (Phase vmi)) ` set exVMIs = {''running'', ''failed''}"
  "length (filter (\<lambda>vmi. asciiToLower (Phase vmi) = ''running'') exVMIs) = 2"
  "length (filter (\<lambda>vmi. asciiToLower (Phase vmi) = ''failed'') exVMIs) = 1"
  by (simp_all add: exVMIs_def exVMI_def ex_lower)

subsection \<open>The concrete inputs evaluated\<close>

lemma exVMI_names: "metadataNames exVMI = exNames"
  by (simp add: metadataNames_spec specLabelNames_def sanitize_def exVMI_def exNames_def)

lemma exVMI_values:
  "baseValues exVMI extra = [''node-a'', ''default'', ''vm1''] @ extra @ [''bar'', ''t1'']"
  by (simp add: baseValues_def metadataValues_def exVMI_def)

lemma decimal_digit: "n < 10 \<Longrightarrow> decimal n = [digit n]"
  by (simp add: decimal.simps)

lemma exResident_ok:
  "NewConstMetric (newMemoryResidentDesc (''node'' # ''namespace'' # ''name'' # exNames))
     GaugeValue 2097152 [''node-a'', ''default'', ''vm1'', ''bar'', ''t1''] = Inr exResident"
  by (simp add: NewConstMetric_def newMemoryResidentDesc_def NewDesc_def exNames_def exResident_def
      validateLabelValues_def ValidString.simps IsValidMetricName_def checkLabelName_def isLetter_def isDigit_def
      inRange_def)

lemma exVcpu_ok:
  "NewConstMetric
     (newVcpuUsageDesc (''node'' # ''namespace'' # ''name'' # ''id'' # ''state'' # exNames))
     GaugeValue 3 [''node-a'', ''default'', ''vm1'', ''0'', ''1'', ''bar'', ''t1'']
   = Inr exVcpuSeconds"
  by (simp add: NewConstMetric_def newVcpuUsageDesc_def NewDesc_def exNames_def exVcpuSeconds_def
      validateLabelValues_def ValidString.simps IsValidMetricName_def checkLabelName_def isLetter_def isDigit_def
      inRange_def)

lemma ex_memoryAttempts: "accepted (memoryAttempts exVMI exStats) = [exResident]"
  by (simp add: memoryAttempts_def exVMI_names exVMI_values exStats_def exMemory_def
      float64_exact exResident_ok)

lemma ex_vcpuAttempts: "accepted (vcpuAttempts exVMI 0 exVcpu) = [exVcpuSeconds]"
  by (simp add: vcpuAttempts_def exVMI_names exVMI_values exVcpu_def float64_exact
      Sprintf_v_def decimal_digit digit_def exVcpu_ok)

lemma ex_reportAttempts: "accepted (reportAttempts exVMI exStats) = [exResident, exVcpuSeconds]"
  using ex_memoryAttempts ex_vcpuAttempts
  by (simp add: reportAttempts_def accepted_append exStats_def)

subsection \<open>The samples an operation adds\<close>





















subsection \<open>Further concrete inputs evaluated\<close>








subsection \<open>Dynamic label names\<close>

text \<open>
  Claim C6. For every VMI, the label-name lists that \<open>updateMemory\<close> builds (and the
  descriptors built from them) are the base names followed by one name per metadata
  label key, \<open>vmi_k8s_label_\<close> and the key with each of \<open>.\<close>, \<open>/\<close>, \<open>-\<close> replaced by \<open>_\<close>, and
  then one name per annotation key, \<open>vmi_k8s_annotation_\<close> and the sanitised key: every
  key gives exactly one name, none is skipped or repeated. The lists built by one
  iteration of \<open>updateVcpu\<close>, \<open>updateBlock\<close> and \<open>updateNetwork\<close> end in the same names.
\<close>

theorem metadata_label_names:
  "memoryResidentLabels (vars (snd (updateMemory vmi vmStats w)))
     = [''node'', ''namespace'', ''name''] @ specLabelNames vmi
   \<and> memoryAvailableLabels (vars (snd (updateMemory vmi vmStats w)))
     = [''node'', ''namespace'', ''name''] @ specLabelNames vmi
   \<and> swapTrafficLabels (vars (snd (updateMemory vmi vmStats w)))
     = [''node'', ''namespace'', ''name'', ''type''] @ specLabelNames vmi
   \<and> variableLabels (memoryResidentDesc (vars (snd (updateMemory vmi vmStats w))))
     = [''node'', ''namespace'', ''name''] @ specLabelNames vmi
   \<and> variableLabels (memoryAvailableDesc (vars (snd (updateMemory vmi vmStats w))))
     = [''node'', ''namespace'', ''name''] @ specLabelNames vmi
   \<and> variableLabels (swapTrafficDesc (vars (snd (updateMemory vmi vmStats w))))
     = [''node'', ''namespace'', ''name'', ''type''] @ specLabelNames vmi
   \<and> length (specLabelNames vmi) = length (Labels vmi) + length (Annotations vmi)
   \<and> vcpuUsageLabels (fst (updateVcpu_labels vmi vcpuId vcpu g))
     = [''node'', ''namespace'', ''name'', ''id'', ''state''] @ specLabelNames vmi
   \<and> storageIopsLabels (fst (updateBlock_labels vmi block g))
     = [''node'', ''namespace'', ''name'', ''drive'', ''type''] @ specLabelNames vmi
   \<and> storageTrafficLabels (fst (updateBlock_labels vmi block g))
     = [''node'', ''namespace'', ''name'', ''drive'', ''type''] @ specLabelNames vmi
   \<and> storageTimesLabels (fst (updateBlock_labels vmi block g))
     = [''node'', ''namespace'', ''name'', ''drive'', ''type''] @ specLabelNames vmi
   \<and> networkTrafficBytesLabels (fst (updateNetwork_labels vmi net g))
     = [''node'', ''namespace'', ''name'', ''interface'', ''type''] @ specLabelNames vmi
   \<and> networkTrafficPktsLabels (fst (updateNetwork_labels vmi net g))
     = [''node'', ''namespace'', ''name'', ''interface'', ''type''] @ specLabelNames vmi
   \<and> networkErrorsLabels (fst (updateNetwork_labels vmi net g))
     = [''node'', ''namespace'', ''name'', ''interface'', ''type''] @ specLabelNames vmi"
proof -
  have "vars (snd (updateMemory vmi vmStats w)) = memoryGlobals vmi (vars w)"
    using updateMemory_rebuilds [of vmi vmStats] by (simp add: rebuilds_def)
  then show ?thesis
    by (simp add: memoryGlobals_def newMemoryResidentDesc_def newMemoryAvailableDesc_def
        newSwapTrafficDesc_def NewDesc_def updateVcpu_labels_eq updateBlock_labels_eq
        updateNetwork_labels_eq vcpuGlobals_def blockGlobals_def networkGlobals_def
        metadataNames_spec)
       (simp add: specLabelNames_def)
qed

text \<open>The label key \<open>kubernetes.io/foo\<close> and the annotation key \<open>team-id\<close>.\<close>

theorem metadata_label_names_witness:
  "memoryResidentLabels (vars (snd (updateMemory exVMI exStats exWorld)))
     = [''node'', ''namespace'', ''name'', ''vmi_k8s_label_kubernetes_io_foo'',
        ''vmi_k8s_annotation_team_id'']"
  using metadata_label_names [of exVMI exStats exWorld]
  by (simp add: specLabelNames_def sanitize_def exVMI_def)

subsection \<open>Report under a closed channel\<close>

text \<open>
  Claim C9. \<open>Report\<close> never panics: it returns normally for every VMI, statistics record
  and state. The samples that were in the channel before stay, followed by those of
  this VMI that the channel took before it was closed. The sequence of update
  operations panics exactly if the channel is closed before it has taken all samples
  of this VMI; then the deferred function logs one warning at verbosity 2, and
  nothing else is added to the log.
\<close>

theorem Report_recovers:
  "fst (Report socketFile vmi vmStats w) = Normal
   \<and> sent (ch (snd (Report socketFile vmi vmStats w)))
       = sent (ch w) @ (case remaining (ch w) of
                          None \<Rightarrow> accepted (reportAttempts vmi vmStats)
                        | Some k \<Rightarrow> take k (accepted (reportAttempts vmi vmStats)))
   \<and> (fst (Report_updates vmi vmStats w) = Panicked
        \<longleftrightarrow> (\<exists>k. remaining (ch w) = Some k \<and> k < length (accepted (reportAttempts vmi vmStats))))
   \<and> logs (snd (Report socketFile vmi vmStats w))
       = logs (snd (Report_updates vmi vmStats w))
         @ (if fst (Report_updates vmi vmStats w) = Panicked
            then [\<lparr>verbosity = Some 2, severity = Warning,
                   message = ''collector goroutine panicked for VM %s: %s''\<rparr>]
            else [])"
proof -
  obtain r w' where ru: "Report_updates vmi vmStats w = (r, w')"
    by (cases "Report_updates vmi vmStats w")
  from Report_updates_eq [of vmi vmStats w] ru
  have o: "r = fst (offer (reportAttempts vmi vmStats) (ch w))"
    "ch w' = snd (offer (reportAttempts vmi vmStats) (ch w))"
    by simp_all
  have 1: "fst (Report socketFile vmi vmStats w) = Normal"
    using ru by (cases r) (simp_all add: Report_def)
  have 2: "ch (snd (Report socketFile vmi vmStats w)) = ch w'"
    using ru by (cases r) (simp_all add: Report_def logf_def)
  have 3: "logs (snd (Report socketFile vmi vmStats w))
       = logs w' @ (if r = Panicked
            then [\<lparr>verbosity = Some 2, severity = Warning,
                   message = ''collector goroutine panicked for VM %s: %s''\<rparr>]
            else [])"
    using ru by (cases r) (simp_all add: Report_def logf_def)
  show ?thesis
    using 1 2 3 ru o by (simp add: sent_offer fst_offer_Panicked)
qed

text \<open>The channel is closed after the first of the two samples of the VMI: the first
  sample is delivered, \<open>Report\<close> returns normally, and the log ends with the warning.\<close>

theorem Report_recovers_witness:
  "fst (Report ''sock'' exVMI exStats (exWorld\<lparr>ch := \<lparr>sent = [], remaining = Some 1\<rparr>\<rparr>)) = Normal
   \<and> sent (ch (snd (Report ''sock'' exVMI exStats (exWorld\<lparr>ch := \<lparr>sent = [], remaining = Some 1\<rparr>\<rparr>))))
       = [exResident]
   \<and> fst (Report_updates exVMI exStats (exWorld\<lparr>ch := \<lparr>sent = [], remaining = Some 1\<rparr>\<rparr>)) = Panicked
   \<and> last (logs (snd (Report ''sock'' exVMI exStats (exWorld\<lparr>ch := \<lparr>sent = [], remaining = Some 1\<rparr>\<rparr>))))
       = \<lparr>verbosity = Some 2, severity = Warning,
          message = ''collector goroutine panicked for VM %s: %s''\<rparr>"
  using Report_recovers [of "''sock''" exVMI exStats "exWorld\<lparr>ch := \<lparr>sent = [], remaining = Some 1\<rparr>\<rparr>"]
  by (simp add: ex_reportAttempts)

subsection \<open>Scrape\<close>

text \<open>
  Claim C3. \<open>Scrape\<close> always returns normally. It hands the statistics to \<open>Report\<close>, the
  delivery step, exactly if the connection succeeds, the fetch returns no error, the
  record exists and has a non-empty name, and the time elapsed since the scrape began
  is at most the collection timeout plus two seconds; the samples of the VMI then
  reach the channel (as far as the channel still takes them). In every other case
  nothing but the log changes: no sample is delivered.
\<close>

theorem Scrape_delivers_iff:
  "fst (Scrape collectionTimeout cli socketFile vmi w) = Normal
   \<and> Scrape collectionTimeout cli socketFile vmi w
       = (if NewClient cli socketFile = None
             \<and> snd (snd (GetDomainStats cli socketFile)) = None
             \<and> fst (snd (GetDomainStats cli socketFile))
             \<and> statsName (fst (GetDomainStats cli socketFile)) \<noteq> []
             \<and> Sub (now cli) (ts cli) \<le> collectionTimeout + 2 * Second
          then Report socketFile vmi (fst (GetDomainStats cli socketFile)) w
          else (Normal, w\<lparr>logs := logs (snd (Scrape collectionTimeout cli socketFile vmi w))\<rparr>))
   \<and> sent (ch (snd (Scrape collectionTimeout cli socketFile vmi w)))
       = sent (ch w)
         @ (if NewClient cli socketFile = None
               \<and> snd (snd (GetDomainStats cli socketFile)) = None
               \<and> fst (snd (GetDomainStats cli socketFile))
               \<and> statsName (fst (GetDomainStats cli socketFile)) \<noteq> []
               \<and> Sub (now cli) (ts cli) \<le> collectionTimeout + 2 * Second
            then (case remaining (ch w) of
                    None \<Rightarrow> accepted (reportAttempts vmi (fst (GetDomainStats cli socketFile)))
                  | Some k \<Rightarrow> take k (accepted (reportAttempts vmi (fst (GetDomainStats cli socketFile)))))
            else [])"
proof -
  obtain vmStats exists err where g: "GetDomainStats cli socketFile = (vmStats, exists, err)"
    by (cases "GetDomainStats cli socketFile")
  have r: "fst (Report socketFile vmi vmStats w) = Normal"
    "sent (ch (snd (Report socketFile vmi vmStats w)))
       = sent (ch w) @ (case remaining (ch w) of
                          None \<Rightarrow> accepted (reportAttempts vmi vmStats)
                        | Some k \<Rightarrow> take k (accepted (reportAttempts vmi vmStats)))"
  proof -
    obtain r w' where ru: "Report_updates vmi vmStats w = (r, w')"
      by (cases "Report_updates vmi vmStats w")
    from Report_updates_eq [of vmi vmStats w] ru
    have o: "ch w' = snd (offer (reportAttempts vmi vmStats) (ch w))"
      by simp
    show "fst (Report socketFile vmi vmStats w) = Normal"
      using ru by (cases r) (simp_all add: Report_def)
    have "ch (snd (Report socketFile vmi vmStats w)) = ch w'"
      using ru by (cases r) (simp_all add: Report_def logf_def)
    with o show "sent (ch (snd (Report socketFile vmi vmStats w)))
       = sent (ch w) @ (case remaining (ch w) of
                          None \<Rightarrow> accepted (reportAttempts vmi vmStats)
                        | Some k \<Rightarrow> take k (accepted (reportAttempts vmi vmStats)))"
      by (simp add: sent_offer)
  qed
  show ?thesis
    unfolding g fst_conv snd_conv
    using g r
    by (cases "NewClient cli socketFile")
       (auto simp: Scrape_def statsMaxAge_def logf_def not_less)
qed

text \<open>A record fetched within the threshold is delivered; the same record fetched after
  thirteen seconds, with a collection timeout of ten seconds, is dropped.\<close>

theorem Scrape_delivers_iff_witness:
  "sent (ch (snd (Scrape (10 * Second) exClient ''sock'' exVMI exWorld))) = [exResident, exVcpuSeconds]
   \<and> sent (ch (snd (Scrape (10 * Second) exSlowClient ''sock'' exVMI exWorld))) = []
   \<and> fst (Scrape (10 * Second) exSlowClient ''sock'' exVMI exWorld) = Normal"
proof -
  have n: "statsName exStats \<noteq> []"
    by (simp add: exStats_def)
  have c: "sent (ch exWorld) = []" "remaining (ch exWorld) = None"
    by (simp_all add: exWorld_def)
  show ?thesis
    using Scrape_delivers_iff [of "10 * Second" exClient "''sock''" exVMI exWorld,
        THEN conjunct2, THEN conjunct2]
      Scrape_delivers_iff [of "10 * Second" exSlowClient "''sock''" exVMI exWorld,
        THEN conjunct2, THEN conjunct2]
      Scrape_delivers_iff [of "10 * Second" exSlowClient "''sock''" exVMI exWorld,
        THEN conjunct1] n c
    by (simp add: exClient_def exSlowClient_def ex_reportAttempts Sub_def Second_def
        maxDuration_def minDuration_def)
qed

subsection \<open>Package-level variables across an update operation\<close>

text \<open>
  Claim C1, as amended. Every update operation builds its label-name lists and
  descriptors anew from the fixed base names and the metadata of the VMI, so the
  samples it delivers and its outcome do not depend on the values that the
  package-level variables had before the call. It builds them in the package-level
  variables themselves: after \<open>updateMemory\<close> the three label lists and the three
  descriptors of the memory family hold the values built for this VMI, and so do those
  of the vCPU, block and network families after \<open>updateVcpu\<close>, \<open>updateBlock\<close> and
  \<open>updateNetwork\<close> when the record has at least one vCPU, block device or interface.
  The package-level variables of the other families keep their values.
\<close>

theorem update_operations_globals:
  "vars (snd (updateMemory vmi vmStats w)) = memoryGlobals vmi (vars w)
   \<and> vars (snd (updateVcpu vmi vmStats w))
       = (if Vcpu vmStats = [] then vars w else vcpuGlobals vmi (vars w))
   \<and> vars (snd (updateBlock vmi vmStats w))
       = (if Block vmStats = [] then vars w else blockGlobals vmi (vars w))
   \<and> vars (snd (updateNetwork vmi vmStats w))
       = (if Net vmStats = [] then vars w else networkGlobals vmi (vars w))
   \<and> ch (snd (updateMemory vmi vmStats (w\<lparr>vars := g\<rparr>))) = ch (snd (updateMemory vmi vmStats w))
   \<and> ch (snd (updateVcpu vmi vmStats (w\<lparr>vars := g\<rparr>))) = ch (snd (updateVcpu vmi vmStats w))
   \<and> ch (snd (updateBlock vmi vmStats (w\<lparr>vars := g\<rparr>))) = ch (snd (updateBlock vmi vmStats w))
   \<and> ch (snd (updateNetwork vmi vmStats (w\<lparr>vars := g\<rparr>))) = ch (snd (updateNetwork vmi vmStats w))
   \<and> fst (updateMemory vmi vmStats (w\<lparr>vars := g\<rparr>)) = fst (updateMemory vmi vmStats w)
   \<and> fst (updateVcpu vmi vmStats (w\<lparr>vars := g\<rparr>)) = fst (updateVcpu vmi vmStats w)
   \<and> fst (updateBlock vmi vmStats (w\<lparr>vars := g\<rparr>)) = fst (updateBlock vmi vmStats w)
   \<and> fst (updateNetwork vmi vmStats (w\<lparr>vars := g\<rparr>)) = fst (updateNetwork vmi vmStats w)"
  by (simp add: updateMemory_eq updateVcpu_eq updateBlock_eq updateNetwork_eq)

text \<open>Started with the initial values of the package-level variables, \<open>updateMemory\<close>
  leaves the resident-memory label list with the names of this VMI appended, and the
  storage label lists untouched.\<close>

theorem update_operations_globals_witness:
  "memoryResidentLabels (vars (snd (updateMemory exVMI exStats exWorld)))
     = [''node'', ''namespace'', ''name'', ''vmi_k8s_label_kubernetes_io_foo'',
        ''vmi_k8s_annotation_team_id'']
   \<and> storageIopsLabels (vars (snd (updateMemory exVMI exStats exWorld)))
     = [''node'', ''namespace'', ''name'', ''drive'', ''type'']
   \<and> vars (snd (updateBlock exVMI exStats exWorld)) = initGlobals"
  using update_operations_globals [of exVMI exStats exWorld]
  by (simp add: memoryGlobals_def exVMI_names exNames_def exWorld_def initGlobals_def exStats_def)

text \<open>Claim C1 as stated fails: \<open>updateMemory\<close> changes a package-level label list.\<close>

theorem updateMemory_changes_globals:
  "memoryResidentLabels (vars (snd (updateMemory exVMI exStats exWorld)))
     \<noteq> memoryResidentLabels (vars exWorld)"
proof -
  have "vars (snd (updateMemory exVMI exStats exWorld)) = memoryGlobals exVMI (vars exWorld)"
    by (simp add: updateMemory_eq)
  then show ?thesis
    by (simp add: memoryGlobals_def exVMI_names exNames_def exWorld_def initGlobals_def)
qed

subsection \<open>The write sample of the storage iops family\<close>

text \<open>
  Claim C2 fails on the code. For the VMI with one label and one annotation and a block
  device with a count of write requests, the label values built for the write sample
  of the iops family are those of the read sample followed by the last metadata value
  once more: eight values for seven label names, with \<open>read\<close> at the position of the type
  label. \<open>NewConstMetric\<close> rejects them and no sample is delivered. For the same device of
  a VMI without metadata the write sample is delivered with the value \<open>write\<close>.
\<close>

theorem updateBlock_write_iops_lost:
  "storageIopsWriteLabelsValues (snd (updateBlock_labels exVMI exBlock initGlobals))
     = [''node-a'', ''default'', ''vm1'', ''vda'', ''read'', ''bar'', ''t1'', ''t1'']
   \<and> storageIopsLabels (fst (updateBlock_labels exVMI exBlock initGlobals))
     = [''node'', ''namespace'', ''name'', ''drive'', ''type'', ''vmi_k8s_label_kubernetes_io_foo'',
        ''vmi_k8s_annotation_team_id'']
   \<and> sent (ch (snd (updateBlock exVMI exBlockStats exWorld))) = []
   \<and> sent (ch (snd (updateBlock exPlainVMI exBlockStats exWorld))) = [exWriteIops]"
proof -
  have v: "metadataValues exVMI = [''bar'', ''t1'']" "metadataValues exPlainVMI = []"
    "metadataNames exPlainVMI = []"
    "baseValues exPlainVMI extra = [''node-a'', ''default'', ''vm1''] @ extra" for extra
    by (simp_all add: metadataValues_def metadataNames_def baseValues_def exPlainVMI_def exVMI_def)
  have w: "iopsWriteValues exVMI ''vda''
             = [''node-a'', ''default'', ''vm1'', ''vda'', ''read'', ''bar'', ''t1'', ''t1'']"
    "iopsWriteValues exPlainVMI ''vda'' = [''node-a'', ''default'', ''vm1'', ''vda'', ''write'']"
    unfolding iopsWriteValues_def v exVMI_values
    by (simp_all add: exPlainVMI_def exVMI_def)
  have n: "blockName exBlock = ''vda''"
    by (simp add: exBlock_def)
  have 1: "accepted (blockAttempts exVMI exBlock) = []"
    unfolding blockAttempts_def n w exVMI_names
    by (simp add: exBlock_def exNames_def NewConstMetric_def newStorageIopsDesc_def
        NewDesc_def validateLabelValues_def ValidString.simps IsValidMetricName_def checkLabelName_def
        isLetter_def isDigit_def inRange_def)
  have 2: "accepted (blockAttempts exPlainVMI exBlock) = [exWriteIops]"
    unfolding blockAttempts_def n w v
    by (simp add: exBlock_def NewConstMetric_def newStorageIopsDesc_def NewDesc_def
        validateLabelValues_def ValidString.simps IsValidMetricName_def checkLabelName_def isLetter_def
        isDigit_def inRange_def float64_exact exWriteIops_def)
  have 3: "ch (snd (updateBlock exVMI exBlockStats exWorld))
             = snd (offer (blockAttempts exVMI exBlock) (ch exWorld))"
    "ch (snd (updateBlock exPlainVMI exBlockStats exWorld))
             = snd (offer (blockAttempts exPlainVMI exBlock) (ch exWorld))"
    by (simp_all add: updateBlock_eq exBlockStats_def)
  have 4: "storageIopsWriteLabelsValues (snd (updateBlock_labels exVMI exBlock initGlobals))
     = [''node-a'', ''default'', ''vm1'', ''vda'', ''read'', ''bar'', ''t1'', ''t1'']"
    unfolding updateBlock_labels_eq n w by simp
  have 5: "storageIopsLabels (fst (updateBlock_labels exVMI exBlock initGlobals))
     = [''node'', ''namespace'', ''name'', ''drive'', ''type'', ''vmi_k8s_label_kubernetes_io_foo'',
        ''vmi_k8s_annotation_team_id'']"
    unfolding updateBlock_labels_eq blockGlobals_def exVMI_names by (simp add: exNames_def)
  show ?thesis
    using 1 2 3 4 5 by (simp add: sent_offer exWorld_def)
qed

subsection \<open>Sample values\<close>




subsection \<open>Statistics that are not set\<close>



subsection \<open>Phase aggregation\<close>

text \<open>
  Claim C7. Whatever function \<open>toLower\<close> the library's \<open>strings.ToLower\<close> is: for every list
  of VMIs (shorter than \<open>2^53\<close>, so that the count is converted without rounding), with
  an open channel, a node name that is valid UTF-8 and phases whose lower-cased form is
  valid UTF-8, \<open>updateVMIsPhase\<close> returns normally and adds to the channel exactly one
  gauge sample per distinct lower-cased phase of the list, in some order, labelled with
  the node and the lower-cased phase, whose value is the number of VMIs of the list
  whose phase lower-cases to it.
\<close>

theorem phase_histogram:
  assumes "remaining (ch w) = None" and "ValidString node"
    and "\<forall>vmi\<in>set vmis. ValidString (toLower (Phase vmi))" and "length vmis < 2 ^ 53"
  shows "fst (updateVMIsPhase toLower node vmis w) = Normal
     \<and> (\<exists>ps. distinct ps \<and> set ps = (\<lambda>vmi. toLower (Phase vmi)) ` set vmis
           \<and> sent (ch (snd (updateVMIsPhase toLower node vmis w)))
               = sent (ch w)
                 @ map (\<lambda>p. \<lparr>desc = vmiCountDesc, valType = GaugeValue,
                             val = real (length (filter (\<lambda>vmi. toLower (Phase vmi) = p) vmis)),
                             labelValues = [node, p]\<rparr>) ps)"
proof (intro conjI exI [of _ "map fst (makeVMIsPhasesMap toLower vmis)"])
  show "fst (updateVMIsPhase toLower node vmis w) = Normal"
    by (rule phase_samples_sent(1) [OF assms])
  show "distinct (map fst (makeVMIsPhasesMap toLower vmis))"
    by (rule makeVMIsPhasesMap_distinct)
  show "set (map fst (makeVMIsPhasesMap toLower vmis)) = (\<lambda>vmi. toLower (Phase vmi)) ` set vmis"
    by (rule makeVMIsPhasesMap_keys)
  show "sent (ch (snd (updateVMIsPhase toLower node vmis w)))
      = sent (ch w)
        @ map (\<lambda>p. \<lparr>desc = vmiCountDesc, valType = GaugeValue,
                    val = real (length (filter (\<lambda>vmi. toLower (Phase vmi) = p) vmis)),
                    labelValues = [node, p]\<rparr>) (map fst (makeVMIsPhasesMap toLower vmis))"
    using phase_samples_sent(2) [OF assms]
    by (simp add: phaseSample_def phaseCount_def comp_def)
qed

text \<open>The phases \<open>Running\<close>, \<open>Running\<close>, \<open>Failed\<close> on \<open>node-a\<close> give exactly two samples, in
  some order: (\<open>node-a\<close>, \<open>running\<close>) with the count 2 and (\<open>node-a\<close>, \<open>failed\<close>) with the
  count 1.\<close>

theorem phase_histogram_witness:
  "fst (updateVMIsPhase asciiToLower ''node-a'' exVMIs exWorld) = Normal
   \<and> (\<exists>ps. distinct ps \<and> set ps = {''running'', ''failed''}
         \<and> sent (ch (snd (updateVMIsPhase asciiToLower ''node-a'' exVMIs exWorld)))
             = map (\<lambda>p. \<lparr>desc = vmiCountDesc, valType = GaugeValue,
                         val = real (length (filter (\<lambda>vmi. asciiToLower (Phase vmi) = p) exVMIs)),
                         labelValues = [''node-a'', p]\<rparr>) ps)
   \<and> length (filter (\<lambda>vmi. asciiToLower (Phase vmi) = ''running'') exVMIs) = 2
   \<and> length (filter (\<lambda>vmi. asciiToLower (Phase vmi) = ''failed'') exVMIs) = 1"
  using phase_histogram [OF ex_hyps(3) ex_valid(1) ex_hyps(1,2)]
  by (simp add: ex_phases ex_hyps)

subsection \<open>The collection cycle\<close>

text \<open>
  Claim C8. A cycle that starts with an open channel (and version strings that are valid
  UTF-8) first delivers the version sample, with the value 1. If the VMI directory
  fails, or lists no VMI, the cycle returns normally with that one sample added and
  the package-level variables unchanged: neither the socket map nor the scheduler nor
  the phase histogram is run. Otherwise the scheduler and the phase histogram run on
  the state that already holds the version sample.
\<close>

theorem Collect_version_first:
  assumes "remaining (ch w) \<noteq> Some 0" and "ValidString (GoVersion (version_Get env))"
    and "ValidString (GitVersion (version_Get env))"
  shows "sent (ch (snd (updateVersion (version_Get env) w)))
       = sent (ch w) @ [\<lparr>desc = versionDesc, valType = GaugeValue, val = 1,
                          labelValues = [GoVersion (version_Get env), GitVersion (version_Get env)]\<rparr>]
     \<and> (case VirtualMachinesOnNode env (nodeName co) of
          Inl err \<Rightarrow>
            fst (Collector_Collect env co w) = Normal \<and> vars (snd (Collector_Collect env co w)) = vars w
            \<and> sent (ch (snd (Collector_Collect env co w)))
                = sent (ch w) @ [\<lparr>desc = versionDesc, valType = GaugeValue, val = 1,
                     labelValues = [GoVersion (version_Get env), GitVersion (version_Get env)]\<rparr>]
        | Inr vmis \<Rightarrow>
            if vmis = []
            then fst (Collector_Collect env co w) = Normal \<and> vars (snd (Collector_Collect env co w)) = vars w
              \<and> sent (ch (snd (Collector_Collect env co w)))
                  = sent (ch w) @ [\<lparr>desc = versionDesc, valType = GaugeValue, val = 1,
                       labelValues = [GoVersion (version_Get env), GitVersion (version_Get env)]\<rparr>]
            else Collector_Collect env co w
                  = updateVMIsPhase (strings_ToLower env) (nodeName co) vmis
                      (concCollect env
                         (newvmiSocketMapFromVMIs (FindSocketOnHost env) (virtShareDir co) vmis)
                         (snd (updateVersion (version_Get env) w))))"
  using updateVersion_eq [OF assms] Collect_after_version [OF updateVersion_eq(1) [OF assms], of co]
  by (simp add: versionSample_def logf_def split: sum.splits)

text \<open>A directory that fails and a directory that lists no VMI: the channel holds the
  version sample and nothing else.\<close>

theorem Collect_version_first_witness:
  "sent (ch (snd (Collector_Collect exFailingEnv exCollector exWorld))) = [exVersionSample]
   \<and> fst (Collector_Collect exFailingEnv exCollector exWorld) = Normal
   \<and> sent (ch (snd (Collector_Collect exEmptyEnv exCollector exWorld))) = [exVersionSample]
   \<and> fst (Collector_Collect exEmptyEnv exCollector exWorld) = Normal"
proof -
  have v: "version_Get exFailingEnv = exVersion" "version_Get exEmptyEnv = exVersion"
    "VirtualMachinesOnNode exFailingEnv (nodeName exCollector) = Inl ''connection refused''"
    "VirtualMachinesOnNode exEmptyEnv (nodeName exCollector) = Inr []"
    by (simp_all add: exFailingEnv_def exEmptyEnv_def exEnv_def)
  have h: "remaining (ch exWorld) \<noteq> Some 0" "ValidString (GoVersion exVersion)"
    "ValidString (GitVersion exVersion)"
    by (simp_all add: exWorld_def exVersion_def ex_valid)
  show ?thesis
    using Collect_version_first [of exWorld exFailingEnv exCollector]
      Collect_version_first [of exWorld exEmptyEnv exCollector] h
    by (simp add: v ex_hyps exVersion_def exVersionSample_def)
qed

text \<open>
  Claim C10. When the directory lists at least one VMI, the phase samples that the
  cycle adds after the scheduler has returned are computed from the whole list of the
  directory: one sample per distinct lower-cased phase, whose value counts the VMIs of
  the list whose phase lower-cases to it, whatever the socket resolver answers, whatever
  the scheduler delivers and whatever function \<open>strings.ToLower\<close> is. (The channel is open
  at the start and after the scheduler; the version strings, the node name and the
  lower-cased phases are valid UTF-8; the list is shorter than \<open>2^53\<close>.)
\<close>

theorem Collect_phases_from_directory:
  assumes "VirtualMachinesOnNode env (nodeName co) = Inr vmis" and "vmis \<noteq> []"
    and "remaining (ch w) \<noteq> Some 0"
    and "ValidString (GoVersion (version_Get env))" and "ValidString (GitVersion (version_Get env))"
    and "remaining (ch (concCollect env
                         (newvmiSocketMapFromVMIs (FindSocketOnHost env) (virtShareDir co) vmis)
                         (snd (updateVersion (version_Get env) w)))) = None"
    and "ValidString (nodeName co)"
    and "\<forall>vmi\<in>set vmis. ValidString (strings_ToLower env (Phase vmi))" and "length vmis < 2 ^ 53"
  shows "fst (Collector_Collect env co w) = Normal
     \<and> (\<exists>ps. distinct ps \<and> set ps = (\<lambda>vmi. strings_ToLower env (Phase vmi)) ` set vmis
           \<and> sent (ch (snd (Collector_Collect env co w)))
               = sent (ch (concCollect env
                             (newvmiSocketMapFromVMIs (FindSocketOnHost env) (virtShareDir co) vmis)
                             (snd (updateVersion (version_Get env) w))))
                 @ map (\<lambda>p. \<lparr>desc = vmiCountDesc, valType = GaugeValue,
                             val = real (length (filter (\<lambda>vmi. strings_ToLower env (Phase vmi) = p) vmis)),
                             labelValues = [nodeName co, p]\<rparr>) ps)"
proof -
  let ?w2 = "concCollect env
               (newvmiSocketMapFromVMIs (FindSocketOnHost env) (virtShareDir co) vmis)
               (snd (updateVersion (version_Get env) w))"
  let ?ps = "map fst (makeVMIsPhasesMap (strings_ToLower env) vmis)"
  have c: "Collector_Collect env co w = updateVMIsPhase (strings_ToLower env) (nodeName co) vmis ?w2"
    using Collect_after_version [OF updateVersion_eq(1) [OF assms(3,4,5)], of co] assms(1,2)
    by simp
  show ?thesis
  proof (intro conjI exI [of _ ?ps])
    show "fst (Collector_Collect env co w) = Normal"
      using phase_samples_sent(1) [OF assms(6,7,8,9)] c by simp
    show "distinct ?ps" by (rule makeVMIsPhasesMap_distinct)
    show "set ?ps = (\<lambda>vmi. strings_ToLower env (Phase vmi)) ` set vmis"
      by (rule makeVMIsPhasesMap_keys)
    show "sent (ch (snd (Collector_Collect env co w)))
        = sent (ch ?w2)
          @ map (\<lambda>p. \<lparr>desc = vmiCountDesc, valType = GaugeValue,
                      val = real (length (filter (\<lambda>vmi. strings_ToLower env (Phase vmi) = p) vmis)),
                      labelValues = [nodeName co, p]\<rparr>) ?ps"
      using phase_samples_sent(2) [OF assms(6,7,8,9)] c
      by (simp add: phaseSample_def phaseCount_def comp_def)
  qed
qed

text \<open>No socket is found for any of the three VMIs and the scheduler delivers nothing:
  the cycle still delivers (\<open>node-a\<close>, \<open>running\<close>) = 2 and (\<open>node-a\<close>, \<open>failed\<close>) = 1 after the
  version sample.\<close>

theorem Collect_phases_from_directory_witness:
  "newvmiSocketMapFromVMIs (FindSocketOnHost exEnv) (virtShareDir exCollector) exVMIs = []
   \<and> fst (Collector_Collect exEnv exCollector exWorld) = Normal
   \<and> (\<exists>ps. distinct ps \<and> set ps = {''running'', ''failed''}
         \<and> sent (ch (snd (Collector_Collect exEnv exCollector exWorld)))
             = [exVersionSample]
               @ map (\<lambda>p. \<lparr>desc = vmiCountDesc, valType = GaugeValue,
                           val = real (length (filter (\<lambda>vmi. asciiToLower (Phase vmi) = p) exVMIs)),
                           labelValues = [''node-a'', p]\<rparr>) ps)
   \<and> length (filter (\<lambda>vmi. asciiToLower (Phase vmi) = ''running'') exVMIs) = 2
   \<and> length (filter (\<lambda>vmi. asciiToLower (Phase vmi) = ''failed'') exVMIs) = 1"
proof -
  have e: "version_Get exEnv = exVersion" "VirtualMachinesOnNode exEnv (nodeName exCollector) = Inr exVMIs"
    "nodeName exCollector = ''node-a''" "strings_ToLower exEnv = asciiToLower"
    "concCollect exEnv m w = w" for m w
    by (simp_all add: exEnv_def exCollector_def)
  have h: "remaining (ch exWorld) \<noteq> Some 0" "ValidString (GoVersion exVersion)"
    "ValidString (GitVersion exVersion)"
    by (simp_all add: exWorld_def exVersion_def ex_valid)
  have u: "sent (ch (snd (updateVersion exVersion exWorld))) = [exVersionSample]"
    "remaining (ch (snd (updateVersion exVersion exWorld))) = None"
    by (simp_all add: updateVersion_def NewConstMetric_def versionDesc_ok validateLabelValues_def
        exVersion_def ex_valid send_def chanSend_def exWorld_def exVersionSample_def)
  have m: "newvmiSocketMapFromVMIs (FindSocketOnHost exEnv) (virtShareDir exCollector) exVMIs = []"
    by (simp add: newvmiSocketMapFromVMIs_def exEnv_def exVMIs_def)
  have o: "remaining (ch (concCollect exEnv
             (newvmiSocketMapFromVMIs (FindSocketOnHost exEnv) (virtShareDir exCollector) exVMIs)
             (snd (updateVersion (version_Get exEnv) exWorld)))) = None"
    by (simp add: e u)
  have n: "ValidString (nodeName exCollector)"
    by (simp add: e ex_valid)
  have p: "\<forall>vmi\<in>set exVMIs. ValidString (strings_ToLower exEnv (Phase vmi))"
    unfolding e(4) by (rule ex_hyps(1))
  have v: "ValidString (GoVersion (version_Get exEnv))" "ValidString (GitVersion (version_Get exEnv))"
    by (simp_all add: e h)
  show ?thesis
    using Collect_phases_from_directory [OF e(2) ex_hyps(5) h(1) v o n p ex_hyps(2)] m
    by (simp add: e u ex_phases)
qed

end
